theory Spec2Isabelle
  imports Main "HOL-Library.AList"
begin

section \<open>Exceptions as values\<close>

text \<open>
  Every exception the sources raise is a value: the exception class is the constructor,
  the message template is its argument.
\<close>

datatype message =
    CannotParseFQN | CannotParseMetricName | CannotParseSpecName
  | NoMetricInformation | NoSpecInformation
  | ConflictingPackage | ConflictingMetric | ConflictingSpec
  | MissingMetric
  | BlobNameNotString | KeyNotString | NotADatum
  | NotAMetric
  | MissingKey
  | StrReturnedNonString
  | UnexpectedKeyword string | MissingArgument string | MultipleValues string
  | NoRstripOnNone
  | CannotAutoload

datatype error =
    TypeError message
  | ValueError message
  | KeyError message
  | AttributeError message
  | NotImplementedError message
  | UnitTypeError
  | External string

definition err_bind :: "error + 'a \<Rightarrow> ('a \<Rightarrow> error + 'b) \<Rightarrow> error + 'b" where
  "err_bind r f = (case r of Inl e \<Rightarrow> Inl e | Inr x \<Rightarrow> f x)"

section \<open>naming.py: the class Name\<close>

text \<open>The three private attributes \<^verbatim>\<open>_package\<close>, \<^verbatim>\<open>_metric\<close>, \<^verbatim>\<open>_spec\<close>; \<open>None\<close> is Python's None.\<close>

record name =
  package :: "string option"
  metric :: "string option"
  spec :: "string option"

text \<open>An argument of the constructor is a string or a Name (absent: \<open>None\<close> of the option).\<close>

datatype name_arg = Str string | NameObj name

type_synonym name_info = "string option \<times> string option \<times> string option"

text \<open>Python's \<^verbatim>\<open>s.split(c)\<close> for a one-character separator: never the empty list.\<close>

fun split :: "char \<Rightarrow> string \<Rightarrow> string list" where
  "split c [] = [[]]"
| "split c (x # xs) =
     (if x = c then [] # split c xs
      else (case split c xs of [] \<Rightarrow> [[x]] | p # ps \<Rightarrow> (x # p) # ps))"

definition parse_fqn_string :: "string \<Rightarrow> error + name_info" where
  "parse_fqn_string fqn =
     (case split CHR ''.'' fqn of
        [a] \<Rightarrow> Inr (Some a, None, None)
      | [a, b] \<Rightarrow> Inr (Some a, Some b, None)
      | [a, b, c] \<Rightarrow> Inr (Some a, Some b, Some c)
      | _ \<Rightarrow> Inl (ValueError CannotParseFQN))"

definition parse_metric_name_string :: "string \<Rightarrow> error + (string option \<times> string option)" where
  "parse_metric_name_string nm =
     (case split CHR ''.'' nm of
        [a, b] \<Rightarrow> Inr (Some a, Some b)
      | [a] \<Rightarrow> Inr (None, Some a)
      | _ \<Rightarrow> Inl (ValueError CannotParseMetricName))"

definition parse_spec_name_string :: "string \<Rightarrow> error + name_info" where
  "parse_spec_name_string nm =
     (case split CHR ''.'' nm of
        [a] \<Rightarrow> Inr (None, None, Some a)
      | [a, b] \<Rightarrow> Inr (None, Some a, Some b)
      | [a, b, c] \<Rightarrow> Inr (Some a, Some b, Some c)
      | _ \<Rightarrow> Inl (ValueError CannotParseSpecName))"

text \<open>\<^verbatim>\<open>except ValueError as e: raise TypeError(str(e))\<close>\<close>

definition as_type_error :: "error + 'a \<Rightarrow> error + 'a" where
  "as_type_error r = (case r of Inl (ValueError m) \<Rightarrow> Inl (TypeError m) | _ \<Rightarrow> r)"

definition has_package :: "name \<Rightarrow> bool" where
  "has_package self = (if package self \<noteq> None then True else False)"

definition has_spec :: "name \<Rightarrow> bool" where
  "has_spec self = (if spec self \<noteq> None then True else False)"

definition has_metric :: "name \<Rightarrow> bool" where
  "has_metric self = (if metric self \<noteq> None then True else False)"

definition is_spec :: "name \<Rightarrow> bool" where
  "is_spec self = (if has_spec self = True then True else False)"

definition is_metric :: "name \<Rightarrow> bool" where
  "is_metric self = (if has_metric self = True \<and> has_spec self = False then True else False)"

definition is_package :: "name \<Rightarrow> bool" where
  "is_package self =
     (if has_package self \<and> is_metric self = False \<and> is_spec self = False then True else False)"

definition has_relative :: "name \<Rightarrow> bool" where
  "has_relative self = (if is_spec self \<and> has_metric self then True else False)"

definition is_fq :: "name \<Rightarrow> bool" where
  "is_fq self =
     (if is_package self then True
      else if is_metric self \<and> has_package self then True
      else if is_spec self \<and> has_package self \<and> has_metric self then True
      else False)"

definition is_relative :: "name \<Rightarrow> bool" where
  "is_relative self =
     (if is_spec self \<and> has_metric self = True \<and> has_package self = False then True else False)"

text \<open>The three \<^verbatim>\<open>_init_new_*_info\<close> methods: the object under construction is passed and returned.\<close>

definition init_new_package_info :: "name \<Rightarrow> string option \<Rightarrow> error + name" where
  "init_new_package_info self p =
     (if p \<noteq> None then
        (if package self = None \<or> p = package self then Inr (self\<lparr>package := p\<rparr>)
         else Inl (TypeError ConflictingPackage))
      else Inr self)"

definition init_new_metric_info :: "name \<Rightarrow> string option \<Rightarrow> error + name" where
  "init_new_metric_info self m =
     (if m \<noteq> None then
        (if metric self = None \<or> m = metric self then Inr (self\<lparr>metric := m\<rparr>)
         else Inl (TypeError ConflictingMetric))
      else Inr self)"

definition init_new_spec_info :: "name \<Rightarrow> string option \<Rightarrow> error + name" where
  "init_new_spec_info self s =
     (if s \<noteq> None then
        (if spec self = None \<or> s = spec self then Inr (self\<lparr>spec := s\<rparr>)
         else Inl (TypeError ConflictingSpec))
      else Inr self)"

text \<open>
  The information each argument carries, as the three branches of \<^verbatim>\<open>__init__\<close> compute it
  into \<^verbatim>\<open>_package, _metric, _spec\<close> before merging.
\<close>

definition package_arg_info :: "name_arg \<Rightarrow> error + name_info" where
  "package_arg_info a =
     (case a of
        NameObj n \<Rightarrow> Inr (package n, metric n, spec n)
      | Str s \<Rightarrow> as_type_error (parse_fqn_string s))"

definition metric_arg_info :: "name_arg \<Rightarrow> error + name_info" where
  "metric_arg_info a =
     (case a of
        NameObj n \<Rightarrow>
          (if has_metric n = False then Inl (TypeError NoMetricInformation)
           else Inr (package n, metric n, spec n))
      | Str s \<Rightarrow>
          err_bind (as_type_error (parse_metric_name_string s))
            (\<lambda>(p, m). Inr (p, m, None)))"

definition spec_arg_info :: "name_arg \<Rightarrow> error + name_info" where
  "spec_arg_info a =
     (case a of
        NameObj n \<Rightarrow>
          (if has_spec n = False then Inl (TypeError NoSpecInformation)
           else Inr (package n, metric n, spec n))
      | Str s \<Rightarrow> as_type_error (parse_spec_name_string s))"

definition init_new_info :: "name \<Rightarrow> name_info \<Rightarrow> error + name" where
  "init_new_info self i =
     (case i of (p, m, s) \<Rightarrow>
        err_bind (init_new_package_info self p) (\<lambda>self.
        err_bind (init_new_metric_info self m) (\<lambda>self.
        init_new_spec_info self s)))"

text \<open>\<^verbatim>\<open>__init__\<close> up to line 107: the three arguments are read and merged in turn.\<close>

definition Name_merge_args ::
  "name_arg option \<Rightarrow> name_arg option \<Rightarrow> name_arg option \<Rightarrow> error + name" where
  "Name_merge_args package_arg metric_arg spec_arg =
     err_bind
       (case package_arg of
          None \<Rightarrow> Inr \<lparr>package = None, metric = None, spec = None\<rparr>
        | Some a \<Rightarrow>
            err_bind (package_arg_info a)
              (\<lambda>(p, m, s). Inr \<lparr>package = p, metric = m, spec = s\<rparr>))
       (\<lambda>self.
     err_bind
       (case metric_arg of
          None \<Rightarrow> Inr self
        | Some a \<Rightarrow> err_bind (metric_arg_info a) (init_new_info self))
       (\<lambda>self.
       (case spec_arg of
          None \<Rightarrow> Inr self
        | Some a \<Rightarrow> err_bind (spec_arg_info a) (init_new_info self))))"

text \<open>The whole of \<^verbatim>\<open>__init__\<close>: the merge, then the test for a metric gap.\<close>

definition Name_init :: "name_arg option \<Rightarrow> name_arg option \<Rightarrow> name_arg option \<Rightarrow> error + name" where
  "Name_init package_arg metric_arg spec_arg =
     err_bind (Name_merge_args package_arg metric_arg spec_arg) (\<lambda>self.
     if package self \<noteq> None \<and> spec self \<noteq> None \<and> metric self = None
     then Inl (TypeError MissingMetric)
     else Inr self)"

text \<open>\<^verbatim>\<open>__eq__\<close> compares the three components.\<close>

definition Name_eq :: "name \<Rightarrow> name \<Rightarrow> bool" where
  "Name_eq self other =
     (package self = package other \<and> metric self = metric other \<and> spec self = spec other)"

definition Name_contains :: "name \<Rightarrow> name \<Rightarrow> bool" where
  "Name_contains self nm =
     (if is_package self then
        (if is_package nm then False else package self = package nm)
      else if is_metric self then
        (if is_metric nm then False
         else
           (let contains = (if has_package self \<or> has_package nm
                            then True \<and> package self = package nm else True)
            in contains \<and> metric self = metric nm))
      else False)"

text \<open>\<^verbatim>\<open>'{}'.format(x)\<close> of an attribute that may be None.\<close>

definition fmt :: "string option \<Rightarrow> string" where
  "fmt x = (case x of None \<Rightarrow> ''None'' | Some s \<Rightarrow> s)"

text \<open>\<^verbatim>\<open>__str__\<close> returning an attribute itself: Python raises TypeError when that is None.\<close>

definition returned_str :: "string option \<Rightarrow> error + string" where
  "returned_str x = (case x of None \<Rightarrow> Inl (TypeError StrReturnedNonString) | Some s \<Rightarrow> Inr s)"

definition Name_str :: "name \<Rightarrow> error + string" where
  "Name_str self =
     (if is_package self then returned_str (package self)
      else if is_metric self \<and> \<not> is_fq self then returned_str (metric self)
      else if is_metric self \<and> is_fq self then
        Inr (fmt (package self) @ ''.'' @ fmt (metric self))
      else if is_spec self \<and> \<not> is_fq self \<and> \<not> is_relative self then returned_str (spec self)
      else if is_spec self \<and> \<not> is_fq self \<and> is_relative self then
        Inr (fmt (metric self) @ ''.'' @ fmt (spec self))
      else Inr (fmt (package self) @ ''.'' @ fmt (metric self) @ ''.'' @ fmt (spec self)))"

section \<open>blob.py: the class Blob\<close>

text \<open>
  Python values that may reach a typed slot. \<open>PStr\<close> is the only \<^verbatim>\<open>basestring\<close>,
  \<open>PDatum\<close> the only instance of \<^verbatim>\<open>Datum\<close>. The class Datum is defined in datum.py and
  kept abstract: its values are the type parameter \<open>'d\<close>, their JSON form is \<open>'j\<close>.
\<close>

datatype 'd pyval = PStr string | PInt int | PBool bool | PNone | PDatum 'd

text \<open>
  \<^verbatim>\<open>uuid.uuid4().hex\<close> belongs to an external library. The generator is a parameter
  \<open>gen\<close>; the state that is threaded through is the number of identifiers drawn so far.
\<close>

definition uuid4_hex :: "(nat \<Rightarrow> string) \<Rightarrow> nat \<Rightarrow> string \<times> nat" where
  "uuid4_hex gen w = (gen w, Suc w)"

text \<open>\<^verbatim>\<open>_id\<close>, \<^verbatim>\<open>_name\<close> and the insertion-ordered dictionary \<^verbatim>\<open>_datums\<close>.\<close>

record 'd blob =
  blob_id :: string
  blob_name :: string
  blob_datums :: "(string \<times> 'd) list"

definition is_basestring :: "'d pyval \<Rightarrow> bool" where
  "is_basestring v = (case v of PStr _ \<Rightarrow> True | _ \<Rightarrow> False)"

definition is_Datum :: "'d pyval \<Rightarrow> bool" where
  "is_Datum v = (case v of PDatum _ \<Rightarrow> True | _ \<Rightarrow> False)"

text \<open>
  \<^verbatim>\<open>__setitem__\<close> mutates the object: the result is the exception raised, if any, and the
  object after the call.
\<close>

definition Blob_setitem :: "'d blob \<Rightarrow> 'd pyval \<Rightarrow> 'd pyval \<Rightarrow> error option \<times> 'd blob" where
  "Blob_setitem self key v =
     (case key of
        PStr k \<Rightarrow>
          (case v of
             PDatum d \<Rightarrow> (None, self\<lparr>blob_datums := AList.update k d (blob_datums self)\<rparr>)
           | _ \<Rightarrow> (Some (TypeError NotADatum), self))
      | _ \<Rightarrow> (Some (KeyError KeyNotString), self))"

definition Blob_getitem :: "'d blob \<Rightarrow> string \<Rightarrow> error + 'd" where
  "Blob_getitem self key =
     (case map_of (blob_datums self) key of None \<Rightarrow> Inl (KeyError MissingKey) | Some d \<Rightarrow> Inr d)"

text \<open>The loop \<^verbatim>\<open>for key, datum in datums.items(): self[key] = datum\<close>.\<close>

fun Blob_setitems :: "'d blob \<Rightarrow> (string \<times> 'd pyval) list \<Rightarrow> error + 'd blob" where
  "Blob_setitems self [] = Inr self"
| "Blob_setitems self ((k, v) # kvs) =
     (case Blob_setitem self (PStr k) v of
        (Some e, _) \<Rightarrow> Inl e
      | (None, self) \<Rightarrow> Blob_setitems self kvs)"

text \<open>
  The call \<^verbatim>\<open>Blob(name, **datums)\<close> for the signature \<^verbatim>\<open>__init__(self, name, **datums)\<close>: the
  data are passed as keywords, so a key \<^verbatim>\<open>self\<close> or \<^verbatim>\<open>name\<close> collides with a parameter that
  is already bound, a TypeError raised before the body runs. Then the body of \<^verbatim>\<open>__init__\<close>.
\<close>

definition Blob_init ::
  "(nat \<Rightarrow> string) \<Rightarrow> 'd pyval \<Rightarrow> (string \<times> 'd pyval) list \<Rightarrow> nat \<Rightarrow> error + ('d blob \<times> nat)" where
  "Blob_init gen nm datums w =
     (case filter (\<lambda>k. k = ''self'' \<or> k = ''name'') (map fst datums) of
        k # _ \<Rightarrow> Inl (TypeError (MultipleValues k))
      | [] \<Rightarrow>
          (case uuid4_hex gen w of (i, w') \<Rightarrow>
             (case nm of
                PStr n \<Rightarrow>
                  err_bind (Blob_setitems \<lparr>blob_id = i, blob_name = n, blob_datums = []\<rparr> datums)
                    (\<lambda>self. Inr (self, w'))
              | _ \<Rightarrow> Inl (TypeError BlobNameNotString))))"

record 'j blob_json =
  json_identifier :: string
  json_name :: string
  json_data :: "(string \<times> 'j) list"


text \<open>
  The comprehension \<^verbatim>\<open>{k: Datum.from_json(v) for k, v in ....items()}\<close> over the items of a
  dictionary (whose keys are distinct), in order; \<^verbatim>\<open>Datum.from_json\<close> is a parameter.
\<close>

fun datums_from_json :: "('j \<Rightarrow> error + 'd) \<Rightarrow> (string \<times> 'j) list \<Rightarrow> error + (string \<times> 'd) list" where
  "datums_from_json datum_from_json [] = Inr []"
| "datums_from_json datum_from_json ((k, v) # kvs) =
     err_bind (datum_from_json v) (\<lambda>d.
     err_bind (datums_from_json datum_from_json kvs) (\<lambda>ds. Inr ((k, d) # ds)))"

definition Blob_from_json ::
  "(nat \<Rightarrow> string) \<Rightarrow> ('j \<Rightarrow> error + 'd) \<Rightarrow> 'j blob_json \<Rightarrow> nat \<Rightarrow> error + ('d blob \<times> nat)" where
  "Blob_from_json gen datum_from_json json_doc w =
     err_bind (datums_from_json datum_from_json (json_data json_doc)) (\<lambda>datums.
     err_bind (Blob_init gen (PStr (json_name json_doc)) (map (\<lambda>(k, d). (k, PDatum d)) datums) w)
       (\<lambda>(instance, w'). Inr (instance\<lparr>blob_id := json_identifier json_doc\<rparr>, w')))"



section \<open>metric.py: the classes Metric and MetricSet\<close>

text \<open>
  The unit library (astropy) is external: a unit is the type parameter \<open>'u\<close>,
  the constructor \<^verbatim>\<open>u.Unit\<close> is the parameter \<open>Unit\<close>, the test
  \<^verbatim>\<open>unit.is_equivalent\<close> is the parameter \<open>is_equivalent\<close>.
\<close>

record 'u metric_obj =
  metric_name :: name
  metric_description :: string
  metric_unit :: 'u
  metric_tags :: "string list"
  metric_reference_doc :: "string option"
  metric_reference_url :: "string option"
  metric_reference_page :: "int option"

text \<open>\<^verbatim>\<open>__init__\<close>; the assignment \<^verbatim>\<open>self.name = name\<close> runs the setter \<^verbatim>\<open>Name(metric=value)\<close>.\<close>

definition Metric_init ::
  "(string option \<Rightarrow> error + 'u) \<Rightarrow> name_arg option \<Rightarrow> string \<Rightarrow> string option \<Rightarrow>
   string list option \<Rightarrow> string option \<Rightarrow> string option \<Rightarrow> int option \<Rightarrow> error + 'u metric_obj" where
  "Metric_init Unit nm description unit_arg tags reference_doc reference_url reference_page =
     err_bind (Name_init None nm None) (\<lambda>n.
     err_bind (Unit unit_arg) (\<lambda>un.
     Inr \<lparr>metric_name = n, metric_description = description, metric_unit = un,
          metric_tags = (case tags of None \<Rightarrow> [] | Some ts \<Rightarrow> ts),
          metric_reference_doc = reference_doc, metric_reference_url = reference_url,
          metric_reference_page = reference_page\<rparr>))"

record reference =
  ref_doc :: "string option"
  ref_page :: "int option"
  ref_url :: "string option"

text \<open>A parsed definition record: the keyword arguments of \<^verbatim>\<open>deserialize\<close>, apart from the name.\<close>

record metric_doc =
  doc_description :: "string option"
  doc_unit :: "string option"
  doc_tags :: "string list option"
  doc_reference :: "reference option"

definition rstrip :: "char \<Rightarrow> string \<Rightarrow> string" where
  "rstrip c s = rev (dropWhile (\<lambda>x. x = c) (rev s))"

text \<open>\<^verbatim>\<open>deserialize\<close> passes name, unit, description and the reference on; the tags are not passed.\<close>

definition Metric_deserialize ::
  "(string option \<Rightarrow> error + 'u) \<Rightarrow> name_arg option \<Rightarrow> metric_doc \<Rightarrow> error + 'u metric_obj" where
  "Metric_deserialize Unit nm doc =
     (case doc_description doc of
        None \<Rightarrow> Inl (AttributeError NoRstripOnNone)
      | Some description \<Rightarrow>
          (case doc_reference doc of
             None \<Rightarrow>
               Metric_init Unit nm (rstrip (CHR 0x0A) description) (doc_unit doc) None None None None
           | Some r \<Rightarrow>
               Metric_init Unit nm (rstrip (CHR 0x0A) description) (doc_unit doc) None
                 (ref_doc r) (ref_url r) (ref_page r)))"

text \<open>\<^verbatim>\<open>Metric.from_json\<close>: the JSON object carries the name as a string beside the other fields.\<close>

definition Metric_from_json ::
  "(string option \<Rightarrow> error + 'u) \<Rightarrow> string option \<times> metric_doc \<Rightarrow> error + 'u metric_obj" where
  "Metric_from_json Unit json_doc =
     Metric_deserialize Unit (map_option Str (fst json_doc)) (snd json_doc)"

text \<open>An \<^verbatim>\<open>astropy.units.Quantity\<close>: a magnitude (of any type \<open>'v\<close>) and its unit.\<close>

record ('v, 'u) quantity =
  magnitude :: 'v
  quantity_unit :: 'u

definition check_unit :: "('u \<Rightarrow> 'u \<Rightarrow> bool) \<Rightarrow> 'u metric_obj \<Rightarrow> ('v, 'u) quantity \<Rightarrow> bool" where
  "check_unit is_equivalent self q =
     (if \<not> is_equivalent (quantity_unit q) (metric_unit self) then False else True)"

text \<open>
  \<^verbatim>\<open>_load_metrics_yaml\<close> after the file is read: \<open>package_name\<close> is the file's name without
  extension, \<open>yaml_doc\<close> the ordered mapping of the file; a \<^verbatim>\<open>name\<close> field of a record is
  thrown away, so the record type has none.
\<close>

fun load_metrics_yaml ::
  "(string option \<Rightarrow> error + 'u) \<Rightarrow> string \<Rightarrow> (string \<times> metric_doc) list \<Rightarrow> error + 'u metric_obj list" where
  "load_metrics_yaml Unit package_name [] = Inr []"
| "load_metrics_yaml Unit package_name ((key, doc) # items) =
     err_bind (Name_init (Some (Str package_name)) (Some (Str key)) None) (\<lambda>n.
     err_bind (Metric_deserialize Unit (Some (NameObj n)) doc) (\<lambda>m.
     err_bind (load_metrics_yaml Unit package_name items) (\<lambda>ms. Inr (m # ms))))"

text \<open>The dictionary \<^verbatim>\<open>_metrics\<close>, keyed by Name (hashed and compared on the three components).\<close>

type_synonym 'u metric_set = "(name \<times> 'u metric_obj) list"

fun MetricSet_add :: "'u metric_set \<Rightarrow> 'u metric_obj list \<Rightarrow> 'u metric_set" where
  "MetricSet_add self [] = self"
| "MetricSet_add self (m # ms) = MetricSet_add (AList.update (metric_name m) m self) ms"

definition MetricSet_init :: "'u metric_obj list option \<Rightarrow> 'u metric_set" where
  "MetricSet_init metrics = (case metrics of None \<Rightarrow> [] | Some ms \<Rightarrow> MetricSet_add [] ms)"

definition load_single_package ::
  "(string option \<Rightarrow> error + 'u) \<Rightarrow> string \<Rightarrow> (string \<times> metric_doc) list \<Rightarrow> error + 'u metric_set" where
  "load_single_package Unit package_name yaml_doc =
     err_bind (load_metrics_yaml Unit package_name yaml_doc) (\<lambda>ms. Inr (MetricSet_init (Some ms)))"

text \<open>\<^verbatim>\<open>load_metrics_package\<close> after the directory is listed: one pair per definition file.\<close>

fun load_all_yaml ::
  "(string option \<Rightarrow> error + 'u) \<Rightarrow> (string \<times> (string \<times> metric_doc) list) list \<Rightarrow>
   error + 'u metric_obj list" where
  "load_all_yaml Unit [] = Inr []"
| "load_all_yaml Unit ((package_name, yaml_doc) # files) =
     err_bind (load_metrics_yaml Unit package_name yaml_doc) (\<lambda>new_metrics.
     err_bind (load_all_yaml Unit files) (\<lambda>ms. Inr (new_metrics @ ms)))"

definition load_metrics_package ::
  "(string option \<Rightarrow> error + 'u) \<Rightarrow> (string \<times> (string \<times> metric_doc) list) list \<Rightarrow>
   error + 'u metric_set" where
  "load_metrics_package Unit files =
     err_bind (load_all_yaml Unit files) (\<lambda>ms. Inr (MetricSet_init (Some ms)))"

definition MetricSet_getitem :: "'u metric_set \<Rightarrow> name_arg \<Rightarrow> error + 'u metric_obj" where
  "MetricSet_getitem self key =
     err_bind (case key of NameObj n \<Rightarrow> Inr n | Str s \<Rightarrow> Name_init None (Some (Str s)) None)
       (\<lambda>k. case map_of self k of None \<Rightarrow> Inl (KeyError MissingKey) | Some m \<Rightarrow> Inr m)"

section \<open>measurement.py: the class Measurement\<close>

text \<open>
  \<^verbatim>\<open>__init__\<close> sets \<^verbatim>\<open>_metric\<close>, \<^verbatim>\<open>value\<close> and \<^verbatim>\<open>_id\<close>; \<^verbatim>\<open>parameters\<close> and \<^verbatim>\<open>extras\<close> stay the
  class attributes (None), and \<^verbatim>\<open>_linked_blobs\<close> is not assigned.
\<close>

record ('v, 'u) measurement =
  meas_metric :: "'u metric_obj"
  meas_value :: "('v, 'u) quantity"
  meas_id :: string

definition Measurement_init ::
  "(nat \<Rightarrow> string) \<Rightarrow> ('u \<Rightarrow> 'u \<Rightarrow> bool) \<Rightarrow> name_arg \<Rightarrow> ('v, 'u) quantity \<Rightarrow>
   'u metric_set option \<Rightarrow> nat \<Rightarrow> error + (('v, 'u) measurement \<times> nat)" where
  "Measurement_init gen is_equivalent nm v metric_set w =
     (case metric_set of
        None \<Rightarrow> Inl (NotImplementedError CannotAutoload)
      | Some ms \<Rightarrow>
          err_bind (MetricSet_getitem ms nm) (\<lambda>m.
          if \<not> check_unit is_equivalent m v then Inl UnitTypeError
          else (case uuid4_hex gen w of (i, w') \<Rightarrow>
                  Inr (\<lparr>meas_metric = m, meas_value = v, meas_id = i\<rparr>, w'))))"

text \<open>
  A call \<^verbatim>\<open>f(k1=v1, ...)\<close> of a Python function: a keyword that is not a parameter of \<^verbatim>\<open>f\<close>, and
  then a parameter without default that no keyword supplies, is a TypeError raised before the
  body runs.
\<close>

definition bind_keywords :: "string list \<Rightarrow> string list \<Rightarrow> string list \<Rightarrow> error + unit" where
  "bind_keywords parameters required keywords =
     (case filter (\<lambda>k. k \<notin> set parameters) keywords of
        k # _ \<Rightarrow> Inl (TypeError (UnexpectedKeyword k))
      | [] \<Rightarrow>
          (case filter (\<lambda>p. p \<notin> set keywords) required of
             p # _ \<Rightarrow> Inl (TypeError (MissingArgument p))
           | [] \<Rightarrow> Inr ()))"

text \<open>The values that are passed by keyword to the class.\<close>

datatype ('v, 'u, 'd, 'b) kwarg =
    AQuantity "('v, 'u) quantity"
  | AString string
  | AKey name_arg
  | AMetric "'u metric_obj"
  | AMetricSet "'u metric_set"
  | ADatums "(string \<times> 'd) list"
  | ABlobs "(string \<times> 'b) list"

text \<open>
  \<^verbatim>\<open>cls(...)\<close> with keywords only, for the signature
  \<^verbatim>\<open>__init__(self, name, value, metric_set=None)\<close>.
\<close>

definition Measurement_new ::
  "(nat \<Rightarrow> string) \<Rightarrow> ('u \<Rightarrow> 'u \<Rightarrow> bool) \<Rightarrow> (string \<times> ('v, 'u, 'd, 'b) kwarg) list \<Rightarrow> nat \<Rightarrow>
   error + (('v, 'u) measurement \<times> nat)" where
  "Measurement_new gen is_equivalent kwargs w =
     err_bind (bind_keywords [''name'', ''value'', ''metric_set''] [''name'', ''value''] (map fst kwargs))
       (\<lambda>_. case (map_of kwargs ''name'', map_of kwargs ''value'') of
              (Some (AKey nm), Some (AQuantity v)) \<Rightarrow>
                Measurement_init gen is_equivalent nm v
                  (case map_of kwargs ''metric_set'' of Some (AMetricSet ms) \<Rightarrow> Some ms | _ \<Rightarrow> None) w
            | _ \<Rightarrow> Inl (External ''argument of another type''))"

text \<open>The fields of a Measurement JSON object that \<^verbatim>\<open>from_json\<close> reads.\<close>

record ('jv, 'j) measurement_json =
  mj_metric :: "string option \<times> metric_doc"
  mj_identifier :: string
  mj_value :: 'jv
  mj_unit :: string
  mj_parameters :: "(string \<times> 'j) list"
  mj_extras :: "(string \<times> 'j) list"
  mj_blobs :: "(string \<times> string) list"

text \<open>
  The inner loop \<^verbatim>\<open>for blob_doc in blobs_json\<close> for one pair \<open>(k, id_)\<close>: every record whose
  identifier matches is deserialized and stored under \<open>k\<close>; there is no \<^verbatim>\<open>break\<close>.
  \<^verbatim>\<open>DeserializedBlob.from_json\<close> is the parameter \<open>blob_from_json\<close> (blob.py defines no class of
  that name).
\<close>

fun link_blob ::
  "('j blob_json \<Rightarrow> nat \<Rightarrow> error + ('b \<times> nat)) \<Rightarrow> string \<Rightarrow> string \<Rightarrow> 'j blob_json list \<Rightarrow>
   (string \<times> 'b) list \<Rightarrow> nat \<Rightarrow> error + ((string \<times> 'b) list \<times> nat)" where
  "link_blob blob_from_json k i [] linked_blobs w = Inr (linked_blobs, w)"
| "link_blob blob_from_json k i (blob_doc # docs) linked_blobs w =
     (if json_identifier blob_doc = i then
        err_bind (blob_from_json blob_doc w) (\<lambda>(b, w').
        link_blob blob_from_json k i docs (AList.update k b linked_blobs) w')
      else link_blob blob_from_json k i docs linked_blobs w)"

text \<open>The outer loop \<^verbatim>\<open>for k, id_ in json_data['blobs'].items()\<close>.\<close>

fun link_blobs ::
  "('j blob_json \<Rightarrow> nat \<Rightarrow> error + ('b \<times> nat)) \<Rightarrow> (string \<times> string) list \<Rightarrow> 'j blob_json list \<Rightarrow>
   (string \<times> 'b) list \<Rightarrow> nat \<Rightarrow> error + ((string \<times> 'b) list \<times> nat)" where
  "link_blobs blob_from_json [] blobs_json linked_blobs w = Inr (linked_blobs, w)"
| "link_blobs blob_from_json ((k, i) # refs) blobs_json linked_blobs w =
     err_bind (link_blob blob_from_json k i blobs_json linked_blobs w) (\<lambda>(linked_blobs, w').
     link_blobs blob_from_json refs blobs_json linked_blobs w')"

text \<open>
  \<^verbatim>\<open>Measurement.from_json\<close>. \<^verbatim>\<open>_rebuild_quantity\<close> (datum.py) and \<^verbatim>\<open>Datum.from_json\<close> are
  parameters. The keyword arguments are evaluated in the order written, then the class is
  called.
\<close>

definition Measurement_from_json ::
  "(nat \<Rightarrow> string) \<Rightarrow> ('u \<Rightarrow> 'u \<Rightarrow> bool) \<Rightarrow> (string option \<Rightarrow> error + 'u) \<Rightarrow>
   ('jv \<Rightarrow> string \<Rightarrow> error + ('v, 'u) quantity) \<Rightarrow> ('j \<Rightarrow> error + 'd) \<Rightarrow>
   ('j blob_json \<Rightarrow> nat \<Rightarrow> error + ('b \<times> nat)) \<Rightarrow>
   ('jv, 'j) measurement_json \<Rightarrow> 'j blob_json list option \<Rightarrow> nat \<Rightarrow>
   error + (('v, 'u) measurement \<times> nat)" where
  "Measurement_from_json gen is_equivalent Unit rebuild_quantity datum_from_json blob_from_json
     json_doc blobs_json w =
     err_bind (rebuild_quantity (mj_value json_doc) (mj_unit json_doc)) (\<lambda>q.
     err_bind (datums_from_json datum_from_json (mj_parameters json_doc)) (\<lambda>parameters.
     err_bind (datums_from_json datum_from_json (mj_extras json_doc)) (\<lambda>extras.
     err_bind
       (case blobs_json of
          None \<Rightarrow> Inr ([], w)
        | Some docs \<Rightarrow> link_blobs blob_from_json (mj_blobs json_doc) docs [] w)
       (\<lambda>(linked_blobs, w').
     err_bind (Metric_from_json Unit (mj_metric json_doc)) (\<lambda>m.
     Measurement_new gen is_equivalent
       [(''quantity'', AQuantity q), (''id_'', AString (mj_identifier json_doc)),
        (''metric'', AMetric m), (''parameters'', ADatums parameters),
        (''linked_blobs'', ABlobs linked_blobs), (''extras'', ADatums extras)] w')))))"

section \<open>Notions of the specification\<close>

text \<open>A metric gap: package and spec present, metric absent.\<close>

definition has_gap :: "name \<Rightarrow> bool" where
  "has_gap n = (package n \<noteq> None \<and> spec n \<noteq> None \<and> metric n = None)"

text \<open>Two sources agree on a component when one of them is silent or both give the same value.\<close>

definition agree :: "string option \<Rightarrow> string option \<Rightarrow> bool" where
  "agree a b = (a = None \<or> b = None \<or> a = b)"

definition agree3 :: "string option \<Rightarrow> string option \<Rightarrow> string option \<Rightarrow> bool" where
  "agree3 a b c = (agree a b \<and> agree a c \<and> agree b c)"

text \<open>A component is supplied twice when two of the three sources give a value for it.\<close>

definition twice :: "string option \<Rightarrow> string option \<Rightarrow> string option \<Rightarrow> bool" where
  "twice a b c = ((a \<noteq> None \<and> b \<noteq> None) \<or> (a \<noteq> None \<and> c \<noteq> None) \<or> (b \<noteq> None \<and> c \<noteq> None))"

text \<open>The information of an optional argument: nothing when the argument is absent.\<close>

definition arg_info :: "(name_arg \<Rightarrow> error + name_info) \<Rightarrow> name_arg option \<Rightarrow> error + name_info" where
  "arg_info f a = (case a of None \<Rightarrow> Inr (None, None, None) | Some x \<Rightarrow> f x)"

text \<open>A Name passed as an argument was itself constructed, so it has no metric gap.\<close>

definition arg_constructed :: "name_arg option \<Rightarrow> bool" where
  "arg_constructed a = (case a of Some (NameObj n) \<Rightarrow> \<not> has_gap n | _ \<Rightarrow> True)"

text \<open>
  Metric containment in the words of the specification: the packages have to agree only
  when both names specify one.
\<close>

definition spec_metric_containment :: "name \<Rightarrow> name \<Rightarrow> bool" where
  "spec_metric_containment a b =
     (\<not> is_metric b \<and> (has_package a \<and> has_package b \<longrightarrow> package b = package a) \<and>
      metric b = metric a)"

text \<open>The minimal rendering of a name of each kind and qualification.\<close>

definition minimal_form :: "name \<Rightarrow> string option" where
  "minimal_form n =
     (case (package n, metric n, spec n) of
        (Some p, None, None) \<Rightarrow> Some p
      | (Some p, Some m, None) \<Rightarrow> Some (p @ ''.'' @ m)
      | (None, Some m, None) \<Rightarrow> Some m
      | (Some p, Some m, Some s) \<Rightarrow> Some (p @ ''.'' @ m @ ''.'' @ s)
      | (None, Some m, Some s) \<Rightarrow> Some (m @ ''.'' @ s)
      | (None, None, Some s) \<Rightarrow> Some s
      | _ \<Rightarrow> None)"

text \<open>An exception of the class TypeError was raised.\<close>

definition raises_TypeError :: "error option \<Rightarrow> bool" where
  "raises_TypeError e = (case e of Some (TypeError _) \<Rightarrow> True | _ \<Rightarrow> False)"

text \<open>Python's \<^verbatim>\<open>c.join(parts)\<close>, the inverse of \<open>split\<close>.\<close>

fun join :: "char \<Rightarrow> string list \<Rightarrow> string" where
  "join c [] = []"
| "join c [x] = x"
| "join c (x # y # ys) = x @ c # join c (y # ys)"

text \<open>The value of a component after two sources were merged: the first one that speaks.\<close>

definition pick :: "string option \<Rightarrow> string option \<Rightarrow> string option" where
  "pick a b = (case a of None \<Rightarrow> b | Some _ \<Rightarrow> a)"

text \<open>The three errors of the \<^verbatim>\<open>_init_new_*_info\<close> methods: a name conflict.\<close>

definition conflict :: "error + name \<Rightarrow> bool" where
  "conflict r =
     (r = Inl (TypeError ConflictingPackage) \<or> r = Inl (TypeError ConflictingMetric) \<or>
      r = Inl (TypeError ConflictingSpec))"

section \<open>Properties of Name\<close>

subsection \<open>The predicates in terms of the components\<close>

lemma has_simps:
  "has_package n \<longleftrightarrow> package n \<noteq> None"
  "has_metric n \<longleftrightarrow> metric n \<noteq> None"
  "has_spec n \<longleftrightarrow> spec n \<noteq> None"
  by (simp_all add: has_package_def has_metric_def has_spec_def)

lemma kind_simps:
  "is_spec n \<longleftrightarrow> spec n \<noteq> None"
  "is_metric n \<longleftrightarrow> metric n \<noteq> None \<and> spec n = None"
  "is_package n \<longleftrightarrow> package n \<noteq> None \<and> metric n = None \<and> spec n = None"
  by (auto simp: is_spec_def is_metric_def is_package_def has_simps)

lemma qual_simps:
  "is_fq n \<longleftrightarrow> package n \<noteq> None \<and> (spec n \<noteq> None \<longrightarrow> metric n \<noteq> None)"
  "is_relative n \<longleftrightarrow> spec n \<noteq> None \<and> metric n \<noteq> None \<and> package n = None"
  "has_relative n \<longleftrightarrow> spec n \<noteq> None \<and> metric n \<noteq> None"
  by (auto simp: is_fq_def is_relative_def has_relative_def kind_simps has_simps)

lemmas kind_defs = has_simps kind_simps qual_simps

text \<open>The equations that evaluate a construction from strings.\<close>

lemmas Name_eval =
  Name_init_def Name_merge_args_def package_arg_info_def metric_arg_info_def spec_arg_info_def
  parse_fqn_string_def parse_metric_name_string_def parse_spec_name_string_def as_type_error_def
  err_bind_def init_new_info_def init_new_package_info_def init_new_metric_info_def
  init_new_spec_info_def

lemma Name_init_no_gap: "Name_init p m s = Inr n \<Longrightarrow> \<not> has_gap n"
  by (auto simp: Name_init_def err_bind_def has_gap_def split: sum.splits if_splits)

subsection \<open>The metric gap\<close>

text \<open>
  C4. Whatever the three arguments are, when the merged components have a package and a spec
  but no metric, the constructor raises the TypeError "Missing 'metric'"; and a Name that
  the constructor returns never has such a gap.
\<close>

theorem Name_init_metric_gap:
  "(Name_merge_args p m s = Inr n \<and> has_gap n \<longrightarrow> Name_init p m s = Inl (TypeError MissingMetric)) \<and>
   (Name_init p' m' s' = Inr n' \<longrightarrow> \<not> has_gap n')"
  by (auto simp: Name_init_def err_bind_def has_gap_def split: sum.splits if_splits)

theorem Name_init_metric_gap_witness:
  "Name_merge_args (Some (Str ''a'')) None (Some (Str ''c'')) =
     Inr \<lparr>package = Some ''a'', metric = None, spec = Some ''c''\<rparr> \<and>
   has_gap \<lparr>package = Some ''a'', metric = None, spec = Some ''c''\<rparr> \<and>
   Name_init (Some (Str ''a'')) None (Some (Str ''c'')) = Inl (TypeError MissingMetric) \<and>
   Name_init (Some (Str ''a.b'')) None (Some (Str ''c'')) =
     Inr \<lparr>package = Some ''a'', metric = Some ''b'', spec = Some ''c''\<rparr> \<and>
   \<not> has_gap \<lparr>package = Some ''a'', metric = Some ''b'', spec = Some ''c''\<rparr>"
proof -
  have 1: "Name_merge_args (Some (Str ''a'')) None (Some (Str ''c'')) =
     Inr \<lparr>package = Some ''a'', metric = None, spec = Some ''c''\<rparr>"
    by (simp add: Name_eval)
  have 2: "has_gap \<lparr>package = Some ''a'', metric = None, spec = Some ''c''\<rparr>"
    by (simp add: has_gap_def)
  have 3: "Name_init (Some (Str ''a.b'')) None (Some (Str ''c'')) =
     Inr \<lparr>package = Some ''a'', metric = Some ''b'', spec = Some ''c''\<rparr>"
    by (simp add: Name_eval)
  show ?thesis
    using 1 2 3
      Name_init_metric_gap [of "Some (Str ''a'')" None "Some (Str ''c'')"
        "\<lparr>package = Some ''a'', metric = None, spec = Some ''c''\<rparr>"
        "Some (Str ''a.b'')" None "Some (Str ''c'')"
        "\<lparr>package = Some ''a'', metric = Some ''b'', spec = Some ''c''\<rparr>"]
    by simp
qed

subsection \<open>Classification\<close>

text \<open>
  C6. A constructed Name with at least one component is of exactly one kind among package,
  metric and spec; it is a package name iff the package is set and it is neither a metric nor
  a spec name, a metric name iff the metric is set and the spec is not, a spec name iff the
  spec is set.
\<close>

theorem Name_kind_exclusive:
  "Name_init p m s = Inr n \<Longrightarrow> has_package n \<or> has_metric n \<or> has_spec n \<Longrightarrow>
    ((is_package n \<and> \<not> is_metric n \<and> \<not> is_spec n) \<or>
     (\<not> is_package n \<and> is_metric n \<and> \<not> is_spec n) \<or>
     (\<not> is_package n \<and> \<not> is_metric n \<and> is_spec n)) \<and>
    (is_package n \<longleftrightarrow> package n \<noteq> None \<and> \<not> is_metric n \<and> \<not> is_spec n) \<and>
    (is_metric n \<longleftrightarrow> metric n \<noteq> None \<and> spec n = None) \<and>
    (is_spec n \<longleftrightarrow> spec n \<noteq> None)"
  by (auto simp: kind_defs)

theorem Name_kind_exclusive_witness:
  "Name_init (Some (Str ''a.b'')) None None =
     Inr \<lparr>package = Some ''a'', metric = Some ''b'', spec = None\<rparr> \<and>
   has_package \<lparr>package = Some ''a'', metric = Some ''b'', spec = None\<rparr> \<and>
   \<not> is_package \<lparr>package = Some ''a'', metric = Some ''b'', spec = None\<rparr> \<and>
   is_metric \<lparr>package = Some ''a'', metric = Some ''b'', spec = None\<rparr> \<and>
   \<not> is_spec \<lparr>package = Some ''a'', metric = Some ''b'', spec = None\<rparr>"
proof -
  have 1: "Name_init (Some (Str ''a.b'')) None None =
     Inr \<lparr>package = Some ''a'', metric = Some ''b'', spec = None\<rparr>"
    by (simp add: Name_eval)
  have 2: "has_package \<lparr>package = Some ''a'', metric = Some ''b'', spec = None\<rparr>"
    by (simp add: has_simps)
  show ?thesis
    using 1 2 Name_kind_exclusive [OF 1 disjI1 [OF 2]] by simp
qed

subsection \<open>Containment\<close>

lemma Name_contains_unfold:
  "Name_contains a b =
     (if is_package a then \<not> is_package b \<and> package a = package b
      else if is_metric a then \<not> is_metric b \<and> package a = package b \<and> metric a = metric b
      else False)"
proof (cases "package a = None \<and> package b = None")
  case True
  then show ?thesis by (simp add: Name_contains_def Let_def has_simps)
next
  case False
  then have "has_package a \<or> has_package b" by (simp add: has_simps)
  then show ?thesis by (simp add: Name_contains_def Let_def)
qed

text \<open>
  C7, as the claim states it, fails: a relative metric name \<open>m\<close> does not contain the fully
  qualified spec name \<open>a.m.s\<close>, although only one side specifies a package. The guard of
  \<^verbatim>\<open>__contains__\<close> is \<^verbatim>\<open>self.has_package or name.has_package\<close>, so the packages are
  compared as soon as one side has one.
\<close>

theorem Name_contains_one_sided_package:
  "Name_contains \<lparr>package = None, metric = Some ''m'', spec = None\<rparr>
      \<lparr>package = Some ''a'', metric = Some ''m'', spec = Some ''s''\<rparr>
   \<noteq> spec_metric_containment \<lparr>package = None, metric = Some ''m'', spec = None\<rparr>
      \<lparr>package = Some ''a'', metric = Some ''m'', spec = Some ''s''\<rparr>"
  by (simp add: Name_contains_def spec_metric_containment_def kind_defs)

text \<open>
  C7, amended. For a package name \<open>a\<close>, \<open>b\<close> is contained iff \<open>b\<close> is not a package name and
  has the package of \<open>a\<close>. For a metric name \<open>a\<close>, \<open>b\<close> is contained iff \<open>b\<close> is not a metric
  name, the package components of \<open>a\<close> and \<open>b\<close> are equal (both absent, or both present and
  the same: a package on one side only defeats containment), and the metric components are
  equal. A spec name contains nothing.
\<close>

theorem Name_contains_cases:
  "(is_package a \<longrightarrow> (Name_contains a b \<longleftrightarrow> \<not> is_package b \<and> package b = package a)) \<and>
   (is_metric a \<longrightarrow>
      (Name_contains a b \<longleftrightarrow> \<not> is_metric b \<and> package b = package a \<and> metric b = metric a)) \<and>
   (is_spec a \<longrightarrow> \<not> Name_contains a b)"
proof (intro conjI impI)
  assume "is_package a"
  then show "Name_contains a b \<longleftrightarrow> \<not> is_package b \<and> package b = package a"
    by (simp add: Name_contains_unfold eq_commute)
next
  assume m: "is_metric a"
  then have "\<not> is_package a" by (simp add: kind_simps)
  with m show "Name_contains a b \<longleftrightarrow> \<not> is_metric b \<and> package b = package a \<and> metric b = metric a"
    by (simp add: Name_contains_unfold eq_commute)
next
  assume "is_spec a"
  then have "\<not> is_package a" "\<not> is_metric a" by (simp_all add: kind_simps)
  then show "\<not> Name_contains a b" by (simp add: Name_contains_unfold)
qed

theorem Name_contains_cases_witness:
  "is_package \<lparr>package = Some ''a'', metric = None, spec = None\<rparr> \<and>
   Name_contains \<lparr>package = Some ''a'', metric = None, spec = None\<rparr>
     \<lparr>package = Some ''a'', metric = Some ''m'', spec = None\<rparr> \<and>
   is_metric \<lparr>package = None, metric = Some ''m'', spec = None\<rparr> \<and>
   Name_contains \<lparr>package = None, metric = Some ''m'', spec = None\<rparr>
     \<lparr>package = None, metric = Some ''m'', spec = Some ''s''\<rparr> \<and>
   is_spec \<lparr>package = None, metric = Some ''m'', spec = Some ''s''\<rparr> \<and>
   \<not> Name_contains \<lparr>package = None, metric = Some ''m'', spec = Some ''s''\<rparr>
     \<lparr>package = None, metric = Some ''m'', spec = Some ''s''\<rparr>"
  using
    Name_contains_cases [of "\<lparr>package = Some ''a'', metric = None, spec = None\<rparr>"
      "\<lparr>package = Some ''a'', metric = Some ''m'', spec = None\<rparr>"]
    Name_contains_cases [of "\<lparr>package = None, metric = Some ''m'', spec = None\<rparr>"
      "\<lparr>package = None, metric = Some ''m'', spec = Some ''s''\<rparr>"]
    Name_contains_cases [of "\<lparr>package = None, metric = Some ''m'', spec = Some ''s''\<rparr>"
      "\<lparr>package = None, metric = Some ''m'', spec = Some ''s''\<rparr>"]
  by (simp add: kind_simps)

subsection \<open>Rendering\<close>

lemma split_not_Nil: "split c s \<noteq> []"
  by (induction s) (auto split: list.splits)

lemma join_split: "join c (split c s) = s"
proof (induction s)
  case Nil
  show ?case by simp
next
  case (Cons x xs)
  obtain p ps where sp: "split c xs = p # ps"
    using split_not_Nil [of c xs] by (cases "split c xs") auto
  show ?case
  proof (cases "x = c")
    case True
    with Cons sp show ?thesis by simp
  next
    case False
    with Cons sp show ?thesis by (cases ps) auto
  qed
qed

lemma split1: "split c s = [a] \<Longrightarrow> s = a"
  using join_split [of c s] by simp

lemma split2: "split c s = [a, b] \<Longrightarrow> s = a @ c # b"
  using join_split [of c s] by simp

lemma split3: "split c s = [a, b, d] \<Longrightarrow> s = a @ c # b @ c # d"
  using join_split [of c s] by simp

lemma Name_init_package_string:
  assumes "length (split CHR ''.'' s) \<le> 3"
  shows "\<exists>n. Name_init (Some (Str s)) None None = Inr n \<and> Name_str n = Inr s"
proof -
  let ?ps = "split CHR ''.'' s"
  from assms split_not_Nil [of "CHR ''.''" s]
  consider a where "?ps = [a]" | a b where "?ps = [a, b]" | a b d where "?ps = [a, b, d]"
    by (cases ?ps rule: list.exhaust; simp; (rename_tac x xs, case_tac xs; simp; (rename_tac y ys, case_tac ys; simp)))
  then show ?thesis
  proof cases
    case 1
    then show ?thesis using split1 [OF 1]
      by (simp add: Name_init_def Name_merge_args_def package_arg_info_def parse_fqn_string_def
          as_type_error_def err_bind_def Name_str_def kind_defs returned_str_def)
  next
    case 2
    then show ?thesis using split2 [OF 2]
      by (simp add: Name_init_def Name_merge_args_def package_arg_info_def parse_fqn_string_def
          as_type_error_def err_bind_def Name_str_def kind_defs returned_str_def fmt_def)
  next
    case 3
    then show ?thesis using split3 [OF 3]
      by (simp add: Name_init_def Name_merge_args_def package_arg_info_def parse_fqn_string_def
          as_type_error_def err_bind_def Name_str_def kind_defs returned_str_def fmt_def)
  qed
qed

lemma Name_str_minimal:
  assumes "\<not> has_gap n" "has_package n \<or> has_metric n \<or> has_spec n"
  shows "\<exists>r. minimal_form n = Some r \<and> Name_str n = Inr r"
proof (cases "package n")
  case None
  note p = this
  show ?thesis
  proof (cases "metric n")
    case None
    with p assms show ?thesis
      by (cases "spec n") (simp_all add: has_gap_def minimal_form_def Name_str_def kind_defs returned_str_def fmt_def)
  next
    case (Some m)
    with p assms show ?thesis
      by (cases "spec n") (simp_all add: has_gap_def minimal_form_def Name_str_def kind_defs returned_str_def fmt_def)
  qed
next
  case (Some pk)
  note p = this
  show ?thesis
  proof (cases "metric n")
    case None
    with p assms show ?thesis
      by (cases "spec n") (simp_all add: has_gap_def minimal_form_def Name_str_def kind_defs returned_str_def fmt_def)
  next
    case (Some m)
    with p assms show ?thesis
      by (cases "spec n") (simp_all add: has_gap_def minimal_form_def Name_str_def kind_defs returned_str_def fmt_def)
  qed
qed

text \<open>
  C8. A string of one, two or three dot-separated parts, given as the package argument, is
  accepted, and \<^verbatim>\<open>str\<close> of the Name gives the string back. For every constructed Name with a
  component, \<^verbatim>\<open>str\<close> is the minimal form of its kind and qualification: \<open>pkg\<close>,
  \<open>pkg.metric\<close> or \<open>metric\<close>, \<open>pkg.metric.spec\<close>, \<open>metric.spec\<close> or \<open>spec\<close>.
\<close>

theorem Name_str_round_trip:
  "(length (split CHR ''.'' s) \<le> 3 \<longrightarrow>
      (\<exists>n. Name_init (Some (Str s)) None None = Inr n \<and> Name_str n = Inr s)) \<and>
   (Name_init p m sp = Inr n' \<and> (has_package n' \<or> has_metric n' \<or> has_spec n') \<longrightarrow>
      (\<exists>r. minimal_form n' = Some r \<and> Name_str n' = Inr r))"
  using Name_init_package_string [of s] Name_str_minimal [of n'] Name_init_no_gap [of p m sp n']
  by blast

theorem Name_str_round_trip_witness:
  "length (split CHR ''.'' ''a.b.c'') \<le> 3 \<and>
   (\<exists>n. Name_init (Some (Str ''a.b.c'')) None None = Inr n \<and> Name_str n = Inr ''a.b.c'') \<and>
   Name_init None (Some (Str ''m'')) (Some (Str ''s'')) =
     Inr \<lparr>package = None, metric = Some ''m'', spec = Some ''s''\<rparr> \<and>
   has_metric \<lparr>package = None, metric = Some ''m'', spec = Some ''s''\<rparr> \<and>
   minimal_form \<lparr>package = None, metric = Some ''m'', spec = Some ''s''\<rparr> = Some ''m.s'' \<and>
   Name_str \<lparr>package = None, metric = Some ''m'', spec = Some ''s''\<rparr> = Inr ''m.s''"
proof -
  have 1: "length (split CHR ''.'' ''a.b.c'') \<le> 3" by simp
  have 2: "Name_init None (Some (Str ''m'')) (Some (Str ''s'')) =
     Inr \<lparr>package = None, metric = Some ''m'', spec = Some ''s''\<rparr>"
    by (simp add: Name_eval)
  have 3: "has_metric \<lparr>package = None, metric = Some ''m'', spec = Some ''s''\<rparr>"
    by (simp add: has_simps)
  have 4: "minimal_form \<lparr>package = None, metric = Some ''m'', spec = Some ''s''\<rparr> = Some ''m.s''"
    by (simp add: minimal_form_def)
  show ?thesis
    using 1 2 3 4
      Name_str_round_trip [of "''a.b.c''" None "Some (Str ''m'')" "Some (Str ''s'')"
        "\<lparr>package = None, metric = Some ''m'', spec = Some ''s''\<rparr>"]
    by simp
qed

subsection \<open>Merging the arguments\<close>

lemma init_new_package_info_eq:
  "init_new_package_info self p =
     (if agree (package self) p then Inr (self\<lparr>package := pick (package self) p\<rparr>)
      else Inl (TypeError ConflictingPackage))"
  by (cases p; cases "package self") (auto simp: init_new_package_info_def agree_def pick_def)

lemma init_new_metric_info_eq:
  "init_new_metric_info self p =
     (if agree (metric self) p then Inr (self\<lparr>metric := pick (metric self) p\<rparr>)
      else Inl (TypeError ConflictingMetric))"
  by (cases p; cases "metric self") (auto simp: init_new_metric_info_def agree_def pick_def)

lemma init_new_spec_info_eq:
  "init_new_spec_info self p =
     (if agree (spec self) p then Inr (self\<lparr>spec := pick (spec self) p\<rparr>)
      else Inl (TypeError ConflictingSpec))"
  by (cases p; cases "spec self") (auto simp: init_new_spec_info_def agree_def pick_def)

lemma init_new_info_agree:
  "agree (package self) p \<Longrightarrow> agree (metric self) m \<Longrightarrow> agree (spec self) s \<Longrightarrow>
   init_new_info self (p, m, s) =
     Inr \<lparr>package = pick (package self) p, metric = pick (metric self) m, spec = pick (spec self) s\<rparr>"
  by (simp add: init_new_info_def err_bind_def init_new_package_info_eq init_new_metric_info_eq
      init_new_spec_info_eq)

lemma init_new_info_conflict:
  "\<not> (agree (package self) p \<and> agree (metric self) m \<and> agree (spec self) s) \<Longrightarrow>
   conflict (init_new_info self (p, m, s))"
  by (simp add: init_new_info_def err_bind_def init_new_package_info_eq init_new_metric_info_eq
      init_new_spec_info_eq conflict_def)

lemma Name_merge_args_infos:
  assumes "arg_info package_arg_info pa = Inr (p1, m1, s1)"
    and "arg_info metric_arg_info ma = Inr i2"
    and "arg_info spec_arg_info sa = Inr i3"
  shows "Name_merge_args pa ma sa =
     err_bind (init_new_info \<lparr>package = p1, metric = m1, spec = s1\<rparr> i2)
       (\<lambda>self. init_new_info self i3)"
proof -
  have none: "init_new_info self (None, None, None) = Inr self" for self
    by (simp add: init_new_info_def err_bind_def init_new_package_info_def
        init_new_metric_info_def init_new_spec_info_def)
  have a: "(case pa of None \<Rightarrow> Inr \<lparr>package = None, metric = None, spec = None\<rparr>
        | Some a \<Rightarrow> err_bind (package_arg_info a) (\<lambda>(p, m, s). Inr \<lparr>package = p, metric = m, spec = s\<rparr>))
      = Inr \<lparr>package = p1, metric = m1, spec = s1\<rparr>"
    using assms(1) by (cases pa) (auto simp: arg_info_def err_bind_def)
  have b: "(case ma of None \<Rightarrow> Inr self | Some a \<Rightarrow> err_bind (metric_arg_info a) (init_new_info self))
      = init_new_info self i2" for self
    using assms(2) by (cases ma) (auto simp: arg_info_def err_bind_def none)
  have c: "(case sa of None \<Rightarrow> Inr self | Some a \<Rightarrow> err_bind (spec_arg_info a) (init_new_info self))
      = init_new_info self i3" for self
    using assms(3) by (cases sa) (auto simp: arg_info_def err_bind_def none)
  show ?thesis
    unfolding Name_merge_args_def a b c by (simp add: err_bind_def)
qed

lemma agree_pick: "agree (pick a b) c \<longleftrightarrow> (agree a b \<longrightarrow> agree a c \<and> agree b c) \<and> (\<not> agree a b \<longrightarrow> agree a c)"
  by (cases a; cases b; cases c) (auto simp: agree_def pick_def)

lemma Name_merge_args_agree:
  assumes "arg_info package_arg_info pa = Inr (p1, m1, s1)"
    and "arg_info metric_arg_info ma = Inr (p2, m2, s2)"
    and "arg_info spec_arg_info sa = Inr (p3, m3, s3)"
    and "agree3 p1 p2 p3" "agree3 m1 m2 m3" "agree3 s1 s2 s3"
  shows "Name_merge_args pa ma sa =
     Inr \<lparr>package = pick (pick p1 p2) p3, metric = pick (pick m1 m2) m3, spec = pick (pick s1 s2) s3\<rparr>"
  using assms(4-6)
  by (simp add: Name_merge_args_infos [OF assms(1-3)] agree3_def init_new_info_agree err_bind_def
      agree_pick)

lemma Name_merge_args_conflict:
  assumes "arg_info package_arg_info pa = Inr (p1, m1, s1)"
    and "arg_info metric_arg_info ma = Inr (p2, m2, s2)"
    and "arg_info spec_arg_info sa = Inr (p3, m3, s3)"
    and "\<not> (agree3 p1 p2 p3 \<and> agree3 m1 m2 m3 \<and> agree3 s1 s2 s3)"
  shows "conflict (Name_merge_args pa ma sa)"
proof (cases "agree p1 p2 \<and> agree m1 m2 \<and> agree s1 s2")
  case True
  then have 1: "init_new_info \<lparr>package = p1, metric = m1, spec = s1\<rparr> (p2, m2, s2) =
      Inr \<lparr>package = pick p1 p2, metric = pick m1 m2, spec = pick s1 s2\<rparr>"
    by (simp add: init_new_info_agree)
  from True assms(4)
  have "\<not> (agree (pick p1 p2) p3 \<and> agree (pick m1 m2) m3 \<and> agree (pick s1 s2) s3)"
    by (simp add: agree3_def agree_pick)
  then have "conflict (init_new_info \<lparr>package = pick p1 p2, metric = pick m1 m2, spec = pick s1 s2\<rparr> (p3, m3, s3))"
    using init_new_info_conflict [of "\<lparr>package = pick p1 p2, metric = pick m1 m2, spec = pick s1 s2\<rparr>" p3 m3 s3]
    by simp
  then show ?thesis
    by (simp add: Name_merge_args_infos [OF assms(1-3)] 1 err_bind_def)
next
  case False
  then have "conflict (init_new_info \<lparr>package = p1, metric = m1, spec = s1\<rparr> (p2, m2, s2))"
    using init_new_info_conflict [of "\<lparr>package = p1, metric = m1, spec = s1\<rparr>" p2 m2 s2] by simp
  then show ?thesis
    by (auto simp: Name_merge_args_infos [OF assms(1-3)] err_bind_def conflict_def)
qed


lemma metric_arg_info_metric:
  assumes "arg_info metric_arg_info ma = Inr (p, m, s)"
  shows "(p = None \<and> m = None \<and> s = None) \<or> m \<noteq> None"
proof (cases ma)
  case None
  with assms show ?thesis by (simp add: arg_info_def)
next
  case (Some a)
  with assms show ?thesis
    by (cases a)
      (auto simp: arg_info_def metric_arg_info_def parse_metric_name_string_def as_type_error_def
        err_bind_def has_simps split: list.splits if_splits)
qed

lemma package_arg_info_no_gap:
  assumes "arg_info package_arg_info pa = Inr (p, m, s)" "arg_constructed pa"
  shows "\<not> (p \<noteq> None \<and> s \<noteq> None \<and> m = None)"
proof (cases pa)
  case None
  with assms show ?thesis by (simp add: arg_info_def)
next
  case (Some a)
  with assms show ?thesis
    by (cases a)
      (auto simp: arg_info_def package_arg_info_def parse_fqn_string_def as_type_error_def
        arg_constructed_def has_gap_def split: list.splits)
qed

lemma spec_arg_info_no_gap:
  assumes "arg_info spec_arg_info sa = Inr (p, m, s)" "arg_constructed sa"
  shows "\<not> (p \<noteq> None \<and> s \<noteq> None \<and> m = None)"
proof (cases sa)
  case None
  with assms show ?thesis by (simp add: arg_info_def)
next
  case (Some a)
  with assms show ?thesis
    by (cases a)
      (auto simp: arg_info_def spec_arg_info_def parse_spec_name_string_def as_type_error_def
        arg_constructed_def has_gap_def has_simps split: list.splits if_splits)
qed

lemma pick_None: "pick a b = None \<longleftrightarrow> a = None \<and> b = None"
  by (cases a) (simp_all add: pick_def)

lemma twice_no_gap:
  assumes g1: "\<not> (p1 \<noteq> None \<and> s1 \<noteq> None \<and> m1 = None)"
    and g2: "(p2 = None \<and> m2 = None \<and> s2 = None) \<or> m2 \<noteq> None"
    and g3: "\<not> (p3 \<noteq> None \<and> s3 \<noteq> None \<and> m3 = None)"
    and tw: "twice p1 p2 p3 \<or> twice m1 m2 m3 \<or> twice s1 s2 s3"
  shows "\<not> (pick (pick p1 p2) p3 \<noteq> None \<and> pick (pick s1 s2) s3 \<noteq> None \<and>
            pick (pick m1 m2) m3 = None)"
proof
  assume gap: "pick (pick p1 p2) p3 \<noteq> None \<and> pick (pick s1 s2) s3 \<noteq> None \<and>
            pick (pick m1 m2) m3 = None"
  then have m: "m1 = None" "m2 = None" "m3 = None" by (simp_all add: pick_None)
  with g2 have two: "p2 = None" "s2 = None" by simp_all
  from gap two have ps: "p1 \<noteq> None \<or> p3 \<noteq> None" "s1 \<noteq> None \<or> s3 \<noteq> None"
    by (simp_all add: pick_None)
  from tw m two have "(p1 \<noteq> None \<and> p3 \<noteq> None) \<or> (s1 \<noteq> None \<and> s3 \<noteq> None)"
    by (simp add: twice_def)
  with g1 g3 m ps show False by blast
qed

text \<open>
  C5. Let every argument be one that its slot accepts (a string with an admissible number of
  parts, or a constructed Name that carries the information of the slot). When two of the
  arguments supply the same component and all supplied values agree, the construction
  succeeds with the merged components; when two supplied values of a component differ, it
  raises the TypeError of a conflicting package, metric or spec.
\<close>

theorem Name_init_merge_consistency:
  assumes "arg_info package_arg_info pa = Inr (p1, m1, s1)"
    and "arg_info metric_arg_info ma = Inr (p2, m2, s2)"
    and "arg_info spec_arg_info sa = Inr (p3, m3, s3)"
    and "arg_constructed pa" and "arg_constructed sa"
  shows "((twice p1 p2 p3 \<or> twice m1 m2 m3 \<or> twice s1 s2 s3) \<and>
          agree3 p1 p2 p3 \<and> agree3 m1 m2 m3 \<and> agree3 s1 s2 s3 \<longrightarrow>
            Name_init pa ma sa =
              Inr \<lparr>package = pick (pick p1 p2) p3, metric = pick (pick m1 m2) m3,
                   spec = pick (pick s1 s2) s3\<rparr>) \<and>
         (\<not> (agree3 p1 p2 p3 \<and> agree3 m1 m2 m3 \<and> agree3 s1 s2 s3) \<longrightarrow>
            conflict (Name_init pa ma sa))"
proof (intro conjI impI)
  assume h: "(twice p1 p2 p3 \<or> twice m1 m2 m3 \<or> twice s1 s2 s3) \<and>
          agree3 p1 p2 p3 \<and> agree3 m1 m2 m3 \<and> agree3 s1 s2 s3"
  then have mg: "Name_merge_args pa ma sa =
     Inr \<lparr>package = pick (pick p1 p2) p3, metric = pick (pick m1 m2) m3, spec = pick (pick s1 s2) s3\<rparr>"
    using Name_merge_args_agree [OF assms(1-3)] by simp
  have "\<not> (pick (pick p1 p2) p3 \<noteq> None \<and> pick (pick s1 s2) s3 \<noteq> None \<and>
            pick (pick m1 m2) m3 = None)"
    using twice_no_gap [OF package_arg_info_no_gap [OF assms(1,4)]
        metric_arg_info_metric [OF assms(2)] spec_arg_info_no_gap [OF assms(3,5)]] h
    by blast
  with mg show "Name_init pa ma sa =
              Inr \<lparr>package = pick (pick p1 p2) p3, metric = pick (pick m1 m2) m3,
                   spec = pick (pick s1 s2) s3\<rparr>"
    by (simp add: Name_init_def err_bind_def)
next
  assume "\<not> (agree3 p1 p2 p3 \<and> agree3 m1 m2 m3 \<and> agree3 s1 s2 s3)"
  then have "conflict (Name_merge_args pa ma sa)"
    using Name_merge_args_conflict [OF assms(1-3)] by simp
  then show "conflict (Name_init pa ma sa)"
    by (auto simp: conflict_def Name_init_def err_bind_def)
qed

theorem Name_init_merge_consistency_witness:
  "Name_init (Some (Str ''a.b'')) (Some (Str ''b'')) None =
     Inr \<lparr>package = Some ''a'', metric = Some ''b'', spec = None\<rparr> \<and>
   conflict (Name_init (Some (Str ''a.b'')) (Some (Str ''x'')) None)"
proof -
  have 1: "arg_info package_arg_info (Some (Str ''a.b'')) = Inr (Some ''a'', Some ''b'', None)"
    by (simp add: arg_info_def package_arg_info_def parse_fqn_string_def as_type_error_def)
  have 2: "arg_info metric_arg_info (Some (Str ''b'')) = Inr (None, Some ''b'', None)"
    by (simp add: arg_info_def metric_arg_info_def parse_metric_name_string_def as_type_error_def err_bind_def)
  have 5: "arg_info metric_arg_info (Some (Str ''x'')) = Inr (None, Some ''x'', None)"
    by (simp add: arg_info_def metric_arg_info_def parse_metric_name_string_def as_type_error_def err_bind_def)
  have 3: "arg_info spec_arg_info None = Inr (None, None, None)"
    by (simp add: arg_info_def)
  have 4: "arg_constructed (Some (Str ''a.b''))" "arg_constructed None"
    by (simp_all add: arg_constructed_def)
  show ?thesis
    using Name_init_merge_consistency [OF 1 2 3 4] Name_init_merge_consistency [OF 1 5 3 4]
    by (simp add: twice_def agree3_def agree_def pick_def)
qed

section \<open>Properties of Blob\<close>

subsection \<open>Item assignment\<close>

text \<open>
  C9, as the claim states it, fails: for a key that is not a string \<^verbatim>\<open>__setitem__\<close> raises
  KeyError, which is not of the class TypeError.
\<close>

theorem Blob_setitem_key_error:
  "\<not> raises_TypeError (fst (Blob_setitem \<lparr>blob_id = ''i'', blob_name = ''n'', blob_datums = []\<rparr>
      (PInt 1) (PDatum (0::nat))))"
  by (simp add: Blob_setitem_def raises_TypeError_def)

text \<open>
  C9, amended. Item assignment raises KeyError when the key is not a string (whatever the
  value), and TypeError when the key is a string and the value is not a Datum. When it
  raises, the Blob is unchanged. It raises nothing exactly when the key is a string and the
  value a Datum, and then the entry is stored under the key.
\<close>

theorem Blob_setitem_checks:
  "(\<not> is_basestring key \<longrightarrow> Blob_setitem self key v = (Some (KeyError KeyNotString), self)) \<and>
   (is_basestring key \<and> \<not> is_Datum v \<longrightarrow> Blob_setitem self key v = (Some (TypeError NotADatum), self)) \<and>
   (fst (Blob_setitem self key v) \<noteq> None \<longrightarrow> snd (Blob_setitem self key v) = self) \<and>
   (fst (Blob_setitem self key v) = None \<longleftrightarrow> is_basestring key \<and> is_Datum v) \<and>
   (key = PStr k \<and> v = PDatum d \<longrightarrow>
      Blob_setitem self key v = (None, self\<lparr>blob_datums := AList.update k d (blob_datums self)\<rparr>))"
  by (cases key; cases v) (simp_all add: Blob_setitem_def is_basestring_def is_Datum_def)

theorem Blob_setitem_checks_witness:
  "\<not> is_basestring (PInt 1 :: nat pyval) \<and>
   Blob_setitem \<lparr>blob_id = ''i'', blob_name = ''n'', blob_datums = []\<rparr> (PInt 1) (PDatum (0::nat)) =
     (Some (KeyError KeyNotString), \<lparr>blob_id = ''i'', blob_name = ''n'', blob_datums = []\<rparr>) \<and>
   is_basestring (PStr ''k'' :: nat pyval) \<and> \<not> is_Datum (PNone :: nat pyval) \<and>
   Blob_setitem \<lparr>blob_id = ''i'', blob_name = ''n'', blob_datums = []\<rparr> (PStr ''k'') (PNone :: nat pyval) =
     (Some (TypeError NotADatum), \<lparr>blob_id = ''i'', blob_name = ''n'', blob_datums = []\<rparr>) \<and>
   Blob_setitem \<lparr>blob_id = ''i'', blob_name = ''n'', blob_datums = []\<rparr> (PStr ''k'') (PDatum (0::nat)) =
     (None, \<lparr>blob_id = ''i'', blob_name = ''n'', blob_datums = [(''k'', 0)]\<rparr>)"
  using
    Blob_setitem_checks [of "PInt 1 :: nat pyval" "\<lparr>blob_id = ''i'', blob_name = ''n'', blob_datums = []\<rparr>" "PDatum 0" "''k''" 0]
    Blob_setitem_checks [of "PStr ''k'' :: nat pyval" "\<lparr>blob_id = ''i'', blob_name = ''n'', blob_datums = []\<rparr>" PNone "''k''" 0]
    Blob_setitem_checks [of "PStr ''k'' :: nat pyval" "\<lparr>blob_id = ''i'', blob_name = ''n'', blob_datums = []\<rparr>" "PDatum 0" "''k''" 0]
  by (auto simp: is_basestring_def is_Datum_def)

subsection \<open>Identity\<close>



lemma Blob_init_collision:
  assumes "\<exists>k \<in> fst ` set ds. k = ''self'' \<or> k = ''name''"
  shows "Blob_init gen nm ds w \<noteq> Inr r"
proof -
  from assms have "filter (\<lambda>k. k = ''self'' \<or> k = ''name'') (map fst ds) \<noteq> []"
    by (auto simp: filter_empty_conv)
  then obtain k ks where "filter (\<lambda>k. k = ''self'' \<or> k = ''name'') (map fst ds) = k # ks"
    by (cases "filter (\<lambda>k. k = ''self'' \<or> k = ''name'') (map fst ds)") auto
  then show ?thesis by (simp add: Blob_init_def)
qed




lemma datums_from_json_keys:
  "datums_from_json datum_from_json xs = Inr ds \<Longrightarrow> fst ` set ds = fst ` set xs"
proof (induction xs arbitrary: ds)
  case Nil
  then show ?case by simp
next
  case (Cons x xs)
  obtain k v where x: "x = (k, v)" by (cases x)
  from Cons.prems x obtain d ds' where
    "datums_from_json datum_from_json xs = Inr ds'" and "ds = (k, d) # ds'"
    by (auto simp: err_bind_def split: sum.splits)
  with Cons.IH [of ds'] x show ?case by simp
qed

lemma keys_PDatum: "fst ` set (map (\<lambda>(k, d). (k, PDatum d)) ds) = fst ` set ds"
  by force


lemma Blob_from_json_collision:
  assumes "\<exists>k \<in> fst ` set (json_data j). k = ''self'' \<or> k = ''name''"
  shows "Blob_from_json gen datum_from_json j w \<noteq> Inr r"
proof (cases "datums_from_json datum_from_json (json_data j)")
  case (Inl e)
  then show ?thesis by (simp add: Blob_from_json_def err_bind_def)
next
  case (Inr ds)
  have "fst ` set (map (\<lambda>(k, d). (k, PDatum d)) ds) = fst ` set (json_data j)"
    using datums_from_json_keys [OF Inr] by (simp only: keys_PDatum)
  with assms
  have "\<exists>k \<in> fst ` set (map (\<lambda>(k, d). (k, PDatum d)) ds). k = ''self'' \<or> k = ''name''"
    by simp
  from Blob_init_collision [OF this] Inr show ?thesis
    by (auto simp: Blob_from_json_def err_bind_def split: sum.splits)
qed






section \<open>Properties of Measurement\<close>

text \<open>
  C2. When the metric set has the metric \<open>m\<close> under the name, the constructor raises
  UnitTypeError iff \<^verbatim>\<open>m.check_unit(value)\<close> is false, that is iff the unit of the value is
  not equivalent to the unit of the metric; otherwise it succeeds and the measurement holds
  the value as it was given.
\<close>

theorem Measurement_init_unit_check:
  "MetricSet_getitem ms nm = Inr m \<Longrightarrow>
     (check_unit is_equivalent m v \<longleftrightarrow> is_equivalent (quantity_unit v) (metric_unit m)) \<and>
     (Measurement_init gen is_equivalent nm v (Some ms) w = Inl UnitTypeError \<longleftrightarrow>
        \<not> check_unit is_equivalent m v) \<and>
     (check_unit is_equivalent m v \<longrightarrow>
        Measurement_init gen is_equivalent nm v (Some ms) w =
          Inr (\<lparr>meas_metric = m, meas_value = v, meas_id = gen w\<rparr>, Suc w))"
  by (simp add: Measurement_init_def err_bind_def check_unit_def uuid4_hex_def)

theorem Measurement_init_unit_check_witness:
  "MetricSet_getitem
     [(\<lparr>package = Some ''p'', metric = Some ''PA1'', spec = None\<rparr>,
       \<lparr>metric_name = \<lparr>package = Some ''p'', metric = Some ''PA1'', spec = None\<rparr>,
        metric_description = ''d'', metric_unit = ''mag'', metric_tags = [],
        metric_reference_doc = None, metric_reference_url = None, metric_reference_page = None\<rparr>)]
     (Str ''p.PA1'') =
   Inr \<lparr>metric_name = \<lparr>package = Some ''p'', metric = Some ''PA1'', spec = None\<rparr>,
        metric_description = ''d'', metric_unit = ''mag'', metric_tags = [],
        metric_reference_doc = None, metric_reference_url = None, metric_reference_page = None\<rparr> \<and>
   Measurement_init (\<lambda>n. replicate n (CHR ''a'')) (=) (Str ''p.PA1'')
     \<lparr>magnitude = 1 :: int, quantity_unit = ''mag''\<rparr>
     (Some [(\<lparr>package = Some ''p'', metric = Some ''PA1'', spec = None\<rparr>,
       \<lparr>metric_name = \<lparr>package = Some ''p'', metric = Some ''PA1'', spec = None\<rparr>,
        metric_description = ''d'', metric_unit = ''mag'', metric_tags = [],
        metric_reference_doc = None, metric_reference_url = None, metric_reference_page = None\<rparr>)]) 0 =
   Inr (\<lparr>meas_metric =
          \<lparr>metric_name = \<lparr>package = Some ''p'', metric = Some ''PA1'', spec = None\<rparr>,
           metric_description = ''d'', metric_unit = ''mag'', metric_tags = [],
           metric_reference_doc = None, metric_reference_url = None, metric_reference_page = None\<rparr>,
         meas_value = \<lparr>magnitude = 1, quantity_unit = ''mag''\<rparr>, meas_id = []\<rparr>, 1) \<and>
   Measurement_init (\<lambda>n. replicate n (CHR ''a'')) (=) (Str ''p.PA1'')
     \<lparr>magnitude = 1 :: int, quantity_unit = ''s''\<rparr>
     (Some [(\<lparr>package = Some ''p'', metric = Some ''PA1'', spec = None\<rparr>,
       \<lparr>metric_name = \<lparr>package = Some ''p'', metric = Some ''PA1'', spec = None\<rparr>,
        metric_description = ''d'', metric_unit = ''mag'', metric_tags = [],
        metric_reference_doc = None, metric_reference_url = None, metric_reference_page = None\<rparr>)]) 0 =
   Inl UnitTypeError"
proof -
  let ?n = "\<lparr>package = Some ''p'', metric = Some ''PA1'', spec = None\<rparr>"
  let ?m = "\<lparr>metric_name = ?n, metric_description = ''d'', metric_unit = ''mag'', metric_tags = [],
        metric_reference_doc = None, metric_reference_url = None, metric_reference_page = None\<rparr>"
  have 1: "MetricSet_getitem [(?n, ?m)] (Str ''p.PA1'') = Inr ?m"
    by (simp add: MetricSet_getitem_def Name_eval)
  have 2: "check_unit (=) ?m \<lparr>magnitude = 1 :: int, quantity_unit = ''mag''\<rparr>"
    by (simp add: check_unit_def)
  have 3: "\<not> check_unit (=) ?m \<lparr>magnitude = 1 :: int, quantity_unit = ''s''\<rparr>"
    by (simp add: check_unit_def)
  show ?thesis
    using 1 2 3
      Measurement_init_unit_check [OF 1, of "(=)" "\<lparr>magnitude = 1 :: int, quantity_unit = ''mag''\<rparr>"
        "\<lambda>n. replicate n (CHR ''a'')" 0]
      Measurement_init_unit_check [OF 1, of "(=)" "\<lparr>magnitude = 1 :: int, quantity_unit = ''s''\<rparr>"
        "\<lambda>n. replicate n (CHR ''a'')" 0]
    by simp
qed

section \<open>Properties of MetricSet\<close>

lemma split_no_sep: "c \<notin> set s \<Longrightarrow> split c s = [s]"
  by (induction s) auto

lemma Name_init_package_string_has_package:
  assumes "Name_init (Some (Str pkg)) m s = Inr n"
  shows "package n \<noteq> None"
proof -
  obtain p1 m1 s1 where 1: "package_arg_info (Str pkg) = Inr (p1, m1, s1)" and p1: "p1 \<noteq> None"
    using assms
    by (auto simp: Name_init_def Name_merge_args_def err_bind_def package_arg_info_def
        parse_fqn_string_def as_type_error_def split: list.splits sum.splits)
  have keep_p: "package x \<noteq> None \<Longrightarrow> init_new_info x i = Inr y \<Longrightarrow> package y \<noteq> None" for x i y
    by (cases i)
      (auto simp: init_new_info_def err_bind_def init_new_package_info_eq init_new_metric_info_eq
        init_new_spec_info_eq pick_def split: if_splits option.splits)
  let ?n0 = "\<lparr>package = p1, metric = m1, spec = s1\<rparr>"
  from assms 1 obtain n1 where
    a: "(case m of None \<Rightarrow> Inr ?n0 | Some a \<Rightarrow> err_bind (metric_arg_info a) (init_new_info ?n0)) = Inr n1"
    and b: "(case s of None \<Rightarrow> Inr n1 | Some a \<Rightarrow> err_bind (spec_arg_info a) (init_new_info n1)) = Inr n"
    by (auto simp: Name_init_def Name_merge_args_def err_bind_def split: sum.splits if_splits)
  from a p1 have "package n1 \<noteq> None"
    by (cases m) (auto simp: err_bind_def split: sum.splits dest: keep_p [rotated])
  with b show ?thesis
    by (cases s) (auto simp: err_bind_def split: sum.splits dest: keep_p [rotated])
qed

lemma Name_init_metric_string_has_metric:
  assumes "Name_init p (Some (Str key)) None = Inr n"
  shows "metric n \<noteq> None"
proof -
  from assms obtain n0 i where
    i: "metric_arg_info (Str key) = Inr i" and n: "init_new_info n0 i = Inr n"
    by (auto simp: Name_init_def Name_merge_args_def err_bind_def split: sum.splits if_splits option.splits)
  obtain p2 m2 s2 where i2: "i = (p2, m2, s2)" by (cases i)
  with i have "m2 \<noteq> None"
    by (auto simp: metric_arg_info_def parse_metric_name_string_def as_type_error_def err_bind_def
        split: list.splits)
  with n i2 show ?thesis
    by (auto simp: init_new_info_def err_bind_def init_new_package_info_eq init_new_metric_info_eq
        init_new_spec_info_eq pick_def split: if_splits option.splits)
qed

lemma Name_setter_copy:
  assumes "metric n \<noteq> None" "\<not> has_gap n"
  shows "Name_init None (Some (NameObj n)) None = Inr n"
  using assms
  by (cases "package n"; cases "spec n")
    (auto simp: Name_init_def Name_merge_args_def err_bind_def metric_arg_info_def has_simps
      init_new_info_def init_new_package_info_def init_new_metric_info_def init_new_spec_info_def
      has_gap_def)

lemma Metric_deserialize_name:
  assumes "Metric_deserialize Unit (Some (NameObj n)) doc = Inr m" "metric n \<noteq> None" "\<not> has_gap n"
  shows "metric_name m = n"
  using assms(1) Name_setter_copy [OF assms(2,3)]
  by (auto simp: Metric_deserialize_def Metric_init_def err_bind_def split: option.splits sum.splits)

lemma load_metrics_yaml_names:
  "load_metrics_yaml Unit pkg items = Inr ms \<Longrightarrow> m \<in> set ms \<Longrightarrow>
     \<exists>key \<in> fst ` set items. Name_init (Some (Str pkg)) (Some (Str key)) None = Inr (metric_name m)"
proof (induction items arbitrary: ms)
  case Nil
  then show ?case by simp
next
  case (Cons it items)
  obtain key doc where it: "it = (key, doc)" by (cases it)
  from Cons.prems(1) it obtain n m0 ms0 where
    n: "Name_init (Some (Str pkg)) (Some (Str key)) None = Inr n"
    and m0: "Metric_deserialize Unit (Some (NameObj n)) doc = Inr m0"
    and ms0: "load_metrics_yaml Unit pkg items = Inr ms0" and ms: "ms = m0 # ms0"
    by (auto simp: err_bind_def split: sum.splits)
  have "metric_name m0 = n"
    using Metric_deserialize_name [OF m0 Name_init_metric_string_has_metric [OF n] Name_init_no_gap [OF n]] .
  with Cons.IH [OF ms0] Cons.prems(2) ms n it show ?case by auto
qed

lemma load_all_yaml_names:
  "load_all_yaml Unit files = Inr ms \<Longrightarrow> m \<in> set ms \<Longrightarrow>
     \<exists>(pkg, doc) \<in> set files. \<exists>key \<in> fst ` set doc.
        Name_init (Some (Str pkg)) (Some (Str key)) None = Inr (metric_name m)"
proof (induction files arbitrary: ms)
  case Nil
  then show ?case by simp
next
  case (Cons f files)
  obtain pkg doc where f: "f = (pkg, doc)" by (cases f)
  from Cons.prems(1) f obtain new ms0 where
    new: "load_metrics_yaml Unit pkg doc = Inr new"
    and ms0: "load_all_yaml Unit files = Inr ms0" and ms: "ms = new @ ms0"
    by (auto simp: err_bind_def split: sum.splits)
  from Cons.prems(2) ms consider "m \<in> set new" | "m \<in> set ms0" by auto
  then show ?case
  proof cases
    case 1
    from load_metrics_yaml_names [OF new 1] f show ?thesis by auto
  next
    case 2
    from Cons.IH [OF ms0 2] show ?thesis by auto
  qed
qed

lemma update_entries:
  "(k, v) \<in> set (AList.update a b al) \<Longrightarrow> (k, v) = (a, b) \<or> (k, v) \<in> set al"
  by (induction al) (auto split: if_splits)

lemma MetricSet_add_entries:
  "(k, m) \<in> set (MetricSet_add self ms) \<Longrightarrow>
     (k, m) \<in> set self \<or> (m \<in> set ms \<and> k = metric_name m)"
proof (induction ms arbitrary: self)
  case Nil
  then show ?case by simp
next
  case (Cons x ms)
  from Cons.IH [of "AList.update (metric_name x) x self"] Cons.prems
  have "(k, m) \<in> set (AList.update (metric_name x) x self) \<or> (m \<in> set ms \<and> k = metric_name m)"
    by simp
  then show ?case
    using update_entries [of k m "metric_name x" x self] by auto
qed


lemma load_single_package_eq:
  "load_single_package Unit pkg doc = load_metrics_package Unit [(pkg, doc)]"
  by (cases "load_metrics_yaml Unit pkg doc")
    (simp_all add: load_single_package_def load_metrics_package_def err_bind_def)

lemma loaded_keys:
  assumes "load_metrics_package Unit files = Inr mset" "(k, m) \<in> set mset"
  shows "k = metric_name m \<and>
     (\<exists>(pkg, doc) \<in> set files. \<exists>key \<in> fst ` set doc.
        Name_init (Some (Str pkg)) (Some (Str key)) None = Inr k)"
proof -
  from assms(1) obtain ms where ms: "load_all_yaml Unit files = Inr ms"
    and mset: "mset = MetricSet_add [] ms"
    by (auto simp: load_metrics_package_def err_bind_def MetricSet_init_def split: sum.splits)
  from assms(2) mset have "m \<in> set ms \<and> k = metric_name m"
    using MetricSet_add_entries [of k m "[]" ms] by simp
  with load_all_yaml_names [OF ms, of m] show ?thesis by simp
qed

lemma loaded_keys_package:
  assumes "load_metrics_package Unit files = Inr mset" "(k, m) \<in> set mset"
  shows "has_package k"
proof -
  from loaded_keys [OF assms] obtain pkg key where
    "Name_init (Some (Str pkg)) (Some (Str key)) None = Inr k" by auto
  from Name_init_package_string_has_package [OF this] show ?thesis by (simp add: has_simps)
qed

lemma MetricSet_getitem_Inr:
  "MetricSet_getitem mset a = Inr m \<Longrightarrow>
     \<exists>k. (k, m) \<in> set mset \<and> (case a of NameObj n \<Rightarrow> k = n
        | Str s \<Rightarrow> Name_init None (Some (Str s)) None = Inr k)"
  by (cases a) (auto simp: MetricSet_getitem_def err_bind_def split: sum.splits option.splits
      dest: map_of_SomeD)

lemma Name_init_bare_metric:
  "CHR ''.'' \<notin> set s \<Longrightarrow>
     Name_init None (Some (Str s)) None = Inr \<lparr>package = None, metric = Some s, spec = None\<rparr>"
  by (simp add: Name_eval split_no_sep)

lemma Name_init_metric_string_package:
  assumes "Name_init None (Some (Str s)) None = Inr k" "package k \<noteq> None"
  shows "length (split CHR ''.'' s) = 2"
  using assms by (auto simp: Name_eval split: list.splits if_splits)

text \<open>
  C10. In a MetricSet built by the load protocol (from a directory of definition files, or
  from a single one) every key is the name of its metric, has a package, and is the result
  of \<^verbatim>\<open>Name(package=file-package, metric=record-key)\<close> for a record of one of the files.
  Hence the lookup of a string without a dot raises KeyError, whichever metrics were loaded;
  a lookup that returns a metric was given a string of the form \<open>package.metric\<close> or a Name
  with a package.
\<close>

theorem MetricSet_keys_qualified:
  assumes "load_metrics_package Unit files = Inr mset \<or>
           (load_single_package Unit pkg0 doc0 = Inr mset \<and> files = [(pkg0, doc0)])"
  shows "(\<forall>(k, m) \<in> set mset. has_package k \<and> k = metric_name m \<and>
            (\<exists>(pkg, doc) \<in> set files. \<exists>key \<in> fst ` set doc.
               Name_init (Some (Str pkg)) (Some (Str key)) None = Inr k)) \<and>
         (\<forall>s. CHR ''.'' \<notin> set s \<longrightarrow> MetricSet_getitem mset (Str s) = Inl (KeyError MissingKey)) \<and>
         (\<forall>a m. MetricSet_getitem mset a = Inr m \<longrightarrow>
            (case a of Str s \<Rightarrow> length (split CHR ''.'' s) = 2 | NameObj n \<Rightarrow> has_package n))"
proof -
  from assms have ld: "load_metrics_package Unit files = Inr mset"
    by (auto simp: load_single_package_eq)
  have 1: "\<forall>(k, m) \<in> set mset. has_package k \<and> k = metric_name m \<and>
            (\<exists>(pkg, doc) \<in> set files. \<exists>key \<in> fst ` set doc.
               Name_init (Some (Str pkg)) (Some (Str key)) None = Inr k)"
    using loaded_keys [OF ld] loaded_keys_package [OF ld] by blast
  have 2: "MetricSet_getitem mset (Str s) = Inl (KeyError MissingKey)" if "CHR ''.'' \<notin> set s" for s
  proof -
    let ?k = "\<lparr>package = None, metric = Some s, spec = None\<rparr>"
    have "map_of mset ?k = None"
    proof (cases "map_of mset ?k")
      case None
      then show ?thesis .
    next
      case (Some m)
      then have "(?k, m) \<in> set mset" by (rule map_of_SomeD)
      from loaded_keys_package [OF ld this] show ?thesis by (simp add: has_simps)
    qed
    with that show ?thesis
      by (simp add: MetricSet_getitem_def Name_init_bare_metric err_bind_def)
  qed
  have 3: "(case a of Str s \<Rightarrow> length (split CHR ''.'' s) = 2 | NameObj n \<Rightarrow> has_package n)"
    if "MetricSet_getitem mset a = Inr m" for a m
  proof -
    from MetricSet_getitem_Inr [OF that] obtain k where k: "(k, m) \<in> set mset"
      and a: "(case a of NameObj n \<Rightarrow> k = n | Str s \<Rightarrow> Name_init None (Some (Str s)) None = Inr k)"
      by auto
    from loaded_keys_package [OF ld k] have "package k \<noteq> None" by (simp add: has_simps)
    with a show ?thesis
      by (cases a) (auto simp: has_simps dest: Name_init_metric_string_package)
  qed
  from 1 2 3 show ?thesis by blast
qed

theorem MetricSet_keys_qualified_witness:
  "load_metrics_package (\<lambda>u. Inr u)
     [(''pkg'', [(''PA1'', \<lparr>doc_description = Some ''d'', doc_unit = Some ''mag'', doc_tags = None,
                          doc_reference = None\<rparr>)])] =
   Inr [(\<lparr>package = Some ''pkg'', metric = Some ''PA1'', spec = None\<rparr>,
         \<lparr>metric_name = \<lparr>package = Some ''pkg'', metric = Some ''PA1'', spec = None\<rparr>,
          metric_description = ''d'', metric_unit = Some ''mag'', metric_tags = [],
          metric_reference_doc = None, metric_reference_url = None, metric_reference_page = None\<rparr>)] \<and>
   has_package \<lparr>package = Some ''pkg'', metric = Some ''PA1'', spec = None\<rparr> \<and>
   CHR ''.'' \<notin> set ''PA1'' \<and>
   MetricSet_getitem
     [(\<lparr>package = Some ''pkg'', metric = Some ''PA1'', spec = None\<rparr>,
         \<lparr>metric_name = \<lparr>package = Some ''pkg'', metric = Some ''PA1'', spec = None\<rparr>,
          metric_description = ''d'', metric_unit = Some ''mag'', metric_tags = [],
          metric_reference_doc = None, metric_reference_url = None, metric_reference_page = None\<rparr>)]
     (Str ''PA1'') = Inl (KeyError MissingKey) \<and>
   MetricSet_getitem
     [(\<lparr>package = Some ''pkg'', metric = Some ''PA1'', spec = None\<rparr>,
         \<lparr>metric_name = \<lparr>package = Some ''pkg'', metric = Some ''PA1'', spec = None\<rparr>,
          metric_description = ''d'', metric_unit = Some ''mag'', metric_tags = [],
          metric_reference_doc = None, metric_reference_url = None, metric_reference_page = None\<rparr>)]
     (Str ''pkg.PA1'') =
   Inr \<lparr>metric_name = \<lparr>package = Some ''pkg'', metric = Some ''PA1'', spec = None\<rparr>,
          metric_description = ''d'', metric_unit = Some ''mag'', metric_tags = [],
          metric_reference_doc = None, metric_reference_url = None, metric_reference_page = None\<rparr> \<and>
   length (split CHR ''.'' ''pkg.PA1'') = 2"
proof -
  let ?doc = "\<lparr>doc_description = Some ''d'', doc_unit = Some ''mag'', doc_tags = None,
                          doc_reference = None\<rparr>"
  let ?n = "\<lparr>package = Some ''pkg'', metric = Some ''PA1'', spec = None\<rparr>"
  let ?m = "\<lparr>metric_name = ?n,
          metric_description = ''d'', metric_unit = Some ''mag'', metric_tags = [],
          metric_reference_doc = None, metric_reference_url = None, metric_reference_page = None\<rparr>"
  have n: "Name_init (Some (Str ''pkg'')) (Some (Str ''PA1'')) None = Inr ?n"
    by (simp add: Name_eval)
  have s: "Name_init None (Some (NameObj ?n)) None = Inr ?n"
    by (simp add: Name_eval has_simps)
  have 1: "load_metrics_package (\<lambda>u. Inr u) [(''pkg'', [(''PA1'', ?doc)])] = Inr [(?n, ?m)]"
    by (simp add: load_metrics_package_def n s err_bind_def Metric_deserialize_def Metric_init_def
        rstrip_def MetricSet_init_def)
  have 2: "MetricSet_getitem [(?n, ?m)] (Str ''pkg.PA1'') = Inr ?m"
    by (simp add: MetricSet_getitem_def Name_eval)
  have 3: "CHR ''.'' \<notin> set ''PA1''" by simp
  note inst = MetricSet_keys_qualified [OF disjI1 [OF 1]]
  have a: "has_package ?n"
    using inst [THEN conjunct1] by simp
  have b: "MetricSet_getitem [(?n, ?m)] (Str ''PA1'') = Inl (KeyError MissingKey)"
    using inst [THEN conjunct2, THEN conjunct1, rule_format, OF 3] .
  have c: "length (split CHR ''.'' ''pkg.PA1'') = 2"
    using inst [THEN conjunct2, THEN conjunct2, rule_format, OF 2] by simp
  from 1 2 3 a b c show ?thesis by simp
qed

section \<open>Deserialization of a Measurement\<close>

lemma Measurement_new_from_json_keywords:
  "Measurement_new gen is_equivalent
     [(''quantity'', q), (''id_'', i), (''metric'', m), (''parameters'', ps),
      (''linked_blobs'', bs), (''extras'', es)] w = Inl (TypeError (UnexpectedKeyword ''quantity''))"
  by (simp add: Measurement_new_def bind_keywords_def err_bind_def)

lemma Measurement_from_json_never_returns:
  "Measurement_from_json gen is_equivalent Unit rebuild_quantity datum_from_json blob_from_json
     json_doc blobs_json w \<noteq> Inr r"
  by (auto simp: Measurement_from_json_def err_bind_def Measurement_new_from_json_keywords
      split: sum.splits)

lemma link_blob_no_match:
  "\<forall>d \<in> set docs. json_identifier d \<noteq> i \<Longrightarrow>
     link_blob blob_from_json k i docs linked_blobs w = Inr (linked_blobs, w)"
  by (induction docs) auto

text \<open>
  C1. The loop of \<^verbatim>\<open>Measurement.from_json\<close> resolves the blob reference \<open>k \<mapsto> id0\<close> against
  the list of blob records, but the call \<^verbatim>\<open>cls(quantity=..., id_=..., ...)\<close> that follows does
  not fit \<^verbatim>\<open>__init__(self, name, value, metric_set=None)\<close>: with the blob list supplied, not
  supplied, or supplied without the referenced identifier, \<^verbatim>\<open>from_json\<close> raises TypeError
  and returns no measurement.
\<close>

theorem Measurement_from_json_raises:
  "link_blobs (Blob_from_json (\<lambda>n. replicate n (CHR ''a'')) (Inr :: nat \<Rightarrow> error + nat))
     [(''k'', ''id0'')] [\<lparr>json_identifier = ''id0'', json_name = ''b'', json_data = []\<rparr>] [] 0 =
     Inr ([(''k'', \<lparr>blob_id = ''id0'', blob_name = ''b'', blob_datums = []\<rparr>)], 1) \<and>
   Measurement_from_json (\<lambda>n. replicate n (CHR ''a'')) (=) (\<lambda>u. Inr u)
     (\<lambda>v u. Inr \<lparr>magnitude = v, quantity_unit = Some u\<rparr>) (Inr :: nat \<Rightarrow> error + nat)
     (Blob_from_json (\<lambda>n. replicate n (CHR ''a'')) Inr)
     \<lparr>mj_metric = (Some ''pkg.PA1'', \<lparr>doc_description = Some ''d'', doc_unit = Some ''mag'',
          doc_tags = None,
          doc_reference = Some \<lparr>ref_doc = Some ''LPM-17'', ref_page = None, ref_url = None\<rparr>\<rparr>),
      mj_identifier = ''m0'', mj_value = 1 :: int, mj_unit = ''mag'', mj_parameters = [],
      mj_extras = [], mj_blobs = [(''k'', ''id0'')]\<rparr>
     (Some [\<lparr>json_identifier = ''id0'', json_name = ''b'', json_data = []\<rparr>]) 0 =
     Inl (TypeError (UnexpectedKeyword ''quantity'')) \<and>
   Measurement_from_json (\<lambda>n. replicate n (CHR ''a'')) (=) (\<lambda>u. Inr u)
     (\<lambda>v u. Inr \<lparr>magnitude = v, quantity_unit = Some u\<rparr>) (Inr :: nat \<Rightarrow> error + nat)
     (Blob_from_json (\<lambda>n. replicate n (CHR ''a'')) Inr)
     \<lparr>mj_metric = (Some ''pkg.PA1'', \<lparr>doc_description = Some ''d'', doc_unit = Some ''mag'',
          doc_tags = None,
          doc_reference = Some \<lparr>ref_doc = Some ''LPM-17'', ref_page = None, ref_url = None\<rparr>\<rparr>),
      mj_identifier = ''m0'', mj_value = 1 :: int, mj_unit = ''mag'', mj_parameters = [],
      mj_extras = [], mj_blobs = [(''k'', ''id0'')]\<rparr>
     None 0 =
     Inl (TypeError (UnexpectedKeyword ''quantity'')) \<and>
   Measurement_from_json (\<lambda>n. replicate n (CHR ''a'')) (=) (\<lambda>u. Inr u)
     (\<lambda>v u. Inr \<lparr>magnitude = v, quantity_unit = Some u\<rparr>) (Inr :: nat \<Rightarrow> error + nat)
     (Blob_from_json (\<lambda>n. replicate n (CHR ''a'')) Inr)
     \<lparr>mj_metric = (Some ''pkg.PA1'', \<lparr>doc_description = Some ''d'', doc_unit = Some ''mag'',
          doc_tags = None,
          doc_reference = Some \<lparr>ref_doc = Some ''LPM-17'', ref_page = None, ref_url = None\<rparr>\<rparr>),
      mj_identifier = ''m0'', mj_value = 1 :: int, mj_unit = ''mag'', mj_parameters = [],
      mj_extras = [], mj_blobs = [(''k'', ''id0'')]\<rparr>
     (Some []) 0 =
     Inl (TypeError (UnexpectedKeyword ''quantity''))"
proof -
  have n: "Name_init None (Some (Str ''pkg.PA1'')) None =
      Inr \<lparr>package = Some ''pkg'', metric = Some ''PA1'', spec = None\<rparr>"
    by (simp add: Name_eval)
  have b: "Blob_from_json (\<lambda>n. replicate n (CHR ''a'')) (Inr :: nat \<Rightarrow> error + nat)
      \<lparr>json_identifier = ''id0'', json_name = ''b'', json_data = []\<rparr> 0 =
      Inr (\<lparr>blob_id = ''id0'', blob_name = ''b'', blob_datums = []\<rparr>, 1)"
    by (simp add: Blob_from_json_def Blob_init_def uuid4_hex_def err_bind_def)
  show ?thesis
    by (simp add: Measurement_from_json_def Metric_from_json_def Metric_deserialize_def
        Metric_init_def n b err_bind_def rstrip_def Measurement_new_from_json_keywords)
qed

end
